theory Spec2Isabelle
  imports Main
begin

section \<open>Python values used by the game\<close>

text \<open>
  The exceptions the game logic can raise are values. Beyond an exception, a call can
  stop the process (\<open>pygame.quit(); quit()\<close>), hand over to a new session (the call of
  \<open>main()\<close> on the final screens), or wait for input that never comes.
\<close>

datatype py_error = KeyError | IndexError | ZeroDivisionError

datatype stop = Raised py_error | SystemExit | NewSession | Blocked

definition and_then :: "stop + 'a \<Rightarrow> ('a \<Rightarrow> stop + 'b) \<Rightarrow> stop + 'b" where
  "and_then m f = (case m of Inl s \<Rightarrow> Inl s | Inr a \<Rightarrow> f a)"

text \<open>
  A \<open>str\<close> is a list of characters; a character is a code point below 256, and the
  \<open>str\<close> methods are those of Python 3 on that range.
\<close>

definition isspace :: "char \<Rightarrow> bool" where
  "isspace c = (let n = (of_char c :: nat) in
     (9 \<le> n \<and> n \<le> 13) \<or> (28 \<le> n \<and> n \<le> 32) \<or> n = 133 \<or> n = 160)"

definition isalpha :: "char \<Rightarrow> bool" where
  "isalpha c = (let n = (of_char c :: nat) in
     (65 \<le> n \<and> n \<le> 90) \<or> (97 \<le> n \<and> n \<le> 122) \<or> n = 170 \<or> n = 181 \<or> n = 186 \<or>
     (192 \<le> n \<and> n \<le> 214) \<or> (216 \<le> n \<and> n \<le> 246) \<or> (248 \<le> n \<and> n \<le> 255))"

definition lower :: "char \<Rightarrow> char" where
  "lower c = (let n = (of_char c :: nat) in
     if (65 \<le> n \<and> n \<le> 90) \<or> (192 \<le> n \<and> n \<le> 222 \<and> n \<noteq> 215)
     then char_of (n + 32) else c)"

definition strip :: "string \<Rightarrow> string" where
  "strip s = rev (dropWhile isspace (rev (dropWhile isspace s)))"

text \<open>
  A \<open>dict\<close> is an association list in insertion order. \<open>d.get(k, default)\<close>,
  \<open>d[k]\<close> and \<open>list(d.keys())\<close>:
\<close>

type_synonym ('k, 'v) dict = "('k \<times> 'v) list"

definition dict_get :: "('k, 'v) dict \<Rightarrow> 'k \<Rightarrow> 'v \<Rightarrow> 'v" where
  "dict_get d k dflt = (case map_of d k of None \<Rightarrow> dflt | Some v \<Rightarrow> v)"

definition dict_getitem :: "('k, 'v) dict \<Rightarrow> 'k \<Rightarrow> stop + 'v" where
  "dict_getitem d k = (case map_of d k of None \<Rightarrow> Inl (Raised KeyError) | Some v \<Rightarrow> Inr v)"

definition dict_keys :: "('k, 'v) dict \<Rightarrow> 'k list" where
  "dict_keys d = map fst d"

text \<open>\<open>xs[i]\<close> for an index that is never negative.\<close>

definition getitem :: "'a list \<Rightarrow> nat \<Rightarrow> stop + 'a" where
  "getitem xs i = (if i < length xs then Inr (xs ! i) else Inl (Raised IndexError))"

text \<open>
  The words and clues, \<open>difficulty -> {word -> clue}\<close>, as \<open>json.load\<close> returns them.
  \<open>self.difficulty\<close> is \<open>None\<close> until \<open>start\<close> has run, and \<open>None\<close> is the key of no
  entry.
\<close>

type_synonym clues = "(string, (string, string) dict) dict"

definition clues_get :: "clues \<Rightarrow> string option \<Rightarrow> (string, string) dict" where
  "clues_get wc difficulty = (case difficulty of None \<Rightarrow> [] | Some d \<Rightarrow> dict_get wc d [])"

definition clues_getitem :: "clues \<Rightarrow> string option \<Rightarrow> stop + (string, string) dict" where
  "clues_getitem wc difficulty =
     (case difficulty of None \<Rightarrow> Inl (Raised KeyError) | Some d \<Rightarrow> dict_getitem wc d)"

section \<open>player.py\<close>

record player =
  name :: string
  guessed_letters :: "char set"
  score :: int
  hints_used :: bool
  hints_left :: int

definition Player :: "string \<Rightarrow> player" where
  "Player n = \<lparr>name = n, guessed_letters = {}, score = 0, hints_used = False, hints_left = 3\<rparr>"

definition make_guess :: "player \<Rightarrow> char \<Rightarrow> player" where
  "make_guess p letter = p\<lparr>guessed_letters := insert letter (guessed_letters p)\<rparr>"

definition reset :: "player \<Rightarrow> player" where
  "reset p = p\<lparr>guessed_letters := {}, score := 0\<rparr>"

definition update_score :: "player \<Rightarrow> int \<Rightarrow> player" where
  "update_score p points = p\<lparr>score := score p + points\<rparr>"

text \<open>\<open>Player.provide_hint\<close>: the returned string and the player after the call.\<close>

definition player_provide_hint ::
  "player \<Rightarrow> clues \<Rightarrow> string option \<Rightarrow> string \<Rightarrow> string \<times> player" where
  "player_provide_hint p wc difficulty cw =
     (if hints_left p > 0 then
        (let p1 = p\<lparr>hints_left := hints_left p - 1\<rparr>;
             p2 = p1\<lparr>hints_used := True\<rparr>;
             hint = dict_get (clues_get wc difficulty) cw ''No clue available''
         in (hint, p2))
      else (''No hints left.'', p))"

section \<open>constants.py\<close>

definition WIDTH :: int where "WIDTH = 1000"

definition HEIGHT :: int where "HEIGHT = 700"

definition RADIUS :: int where "RADIUS = 20"

definition GAP :: int where "GAP = 15"

text \<open>The eight stages of the illustration, by file name.\<close>

definition IMAGES :: "string list" where
  "IMAGES = [''hangman0.png'', ''hangman1.png'', ''hangman2.png'', ''hangman3.png'',
             ''hangman4.png'', ''hangman5.png'', ''hangman6.png'', ''hangman7.png'']"

text \<open>\<open>IMAGES[i]\<close> for any integer: a negative index counts from the end.\<close>

definition images_getitem :: "int \<Rightarrow> stop + string" where
  "images_getitem i =
     (let n = int (length IMAGES); j = (if i < 0 then i + n else i)
      in if 0 \<le> j \<and> j < n then Inr (IMAGES ! nat j) else Inl (Raised IndexError))"

section \<open>utils.py\<close>

record button =
  button_x :: int
  button_y :: int
  button_width :: int
  button_height :: int

definition Button :: "int \<Rightarrow> int \<Rightarrow> int \<Rightarrow> int \<Rightarrow> button" where
  "Button x y w h = \<lparr>button_x = x, button_y = y, button_width = w, button_height = h\<rparr>"

definition is_over :: "button \<Rightarrow> int \<times> int \<Rightarrow> bool" where
  "is_over b pos = (button_x b < fst pos \<and> fst pos < button_x b + button_width b \<and>
                    button_y b < snd pos \<and> snd pos < button_y b + button_height b)"

section \<open>main.py\<close>

subsection \<open>The letter buttons\<close>

text \<open>A letter button is \<open>[x, y, letter, visible]\<close>.\<close>

type_synonym letter = "int \<times> int \<times> char \<times> bool"

text \<open>\<open>round(n / 2)\<close> for an integer \<open>n\<close>: an exact half goes to the even neighbour.\<close>

definition round_half :: "int \<Rightarrow> int" where
  "round_half n = (if even n then n div 2 else if even (n div 2) then n div 2 else n div 2 + 1)"

definition init_letters :: "letter list" where
  "init_letters =
     (let startx = round_half (WIDTH - (RADIUS * 2 + GAP) * 13);
          starty = 520;
          ascii_a = 97
      in map (\<lambda>i. (startx + GAP * 2 + ((RADIUS * 2 + GAP) * (i mod 13)),
                    starty + ((i div 13) * (GAP + RADIUS * 2)),
                    char_of (ascii_a + i),
                    True)) [0..25])"

text \<open>
  \<open>math.sqrt((x - m_x) ** 2 + (y - m_y) ** 2) < RADIUS\<close> on integer coordinates: the
  square root of an integer is below 20 exactly when the integer is below 400.
\<close>

definition within_radius :: "int \<Rightarrow> int \<Rightarrow> int \<Rightarrow> int \<Rightarrow> bool" where
  "within_radius x y m_x m_y = ((x - m_x)\<^sup>2 + (y - m_y)\<^sup>2 < RADIUS\<^sup>2)"

subsection \<open>The game object and its surroundings\<close>

datatype sound = guess_correct_sound | guess_wrong_sound | end_round_win_sound
  | end_round_lose_sound | end_game_sound

datatype file_read = FileNotFoundError | JSONDecodeError | Loaded clues

datatype event = QUIT | MOUSEBUTTONDOWN int int | OTHER

text \<open>
  The attributes of \<open>HangmanGame\<close> that the logic reads or writes, followed by what the
  object meets outside itself: the outcome of reading \<open>words_clues.json\<close>, the future
  draws of the random generator (every draw after the listed ones is 0), the sounds
  played so far (oldest first), and the size of the rendered text of the hint button.
  A \<open>MOUSEBUTTONDOWN\<close> event carries the mouse position read when it is handled.
\<close>

record game =
  hangman_status :: int
  current_word :: string
  guessed_word :: string
  guessed :: "char set"
  letters :: "letter list"
  current_player_index :: nat
  players :: "player list"
  total_players :: nat
  current_round :: int
  total_rounds :: int
  words_clues :: clues
  hint_active :: bool
  hint_message :: string
  difficulty :: "string option"
  game_state :: string
  exit_button :: button
  continue_button :: button
  clues_file :: file_read
  rng :: "nat list"
  mixer :: "sound list"
  hint_text_size :: "int \<times> int"

definition play :: "game \<Rightarrow> sound \<Rightarrow> game" where
  "play g s = g\<lparr>mixer := mixer g @ [s]\<rparr>"

text \<open>\<open>random.choice\<close>: an empty sequence raises \<open>IndexError\<close>.\<close>

definition random_choice :: "game \<Rightarrow> 'a list \<Rightarrow> stop + ('a \<times> game)" where
  "random_choice g xs =
     (if xs = [] then Inl (Raised IndexError)
      else (case rng g of
              [] \<Rightarrow> Inr (xs ! 0, g)
            | r # rs \<Rightarrow> Inr (xs ! (r mod length xs), g\<lparr>rng := rs\<rparr>)))"

definition load_clues :: "game \<Rightarrow> game" where
  "load_clues g =
     (case clues_file g of
        Loaded wc \<Rightarrow> g\<lparr>words_clues := wc\<rparr>
      | FileNotFoundError \<Rightarrow> g\<lparr>words_clues := []\<rparr>
      | JSONDecodeError \<Rightarrow> g\<lparr>words_clues := []\<rparr>)"

text \<open>\<open>HangmanGame.__init__\<close>; the sound files are taken to load.\<close>

definition HangmanGame ::
  "nat \<Rightarrow> player list \<Rightarrow> nat \<Rightarrow> file_read \<Rightarrow> nat list \<Rightarrow> int \<times> int \<Rightarrow> game" where
  "HangmanGame total_player ps cpi file draws text_size =
     load_clues
       \<lparr>hangman_status = 0, current_word = [], guessed_word = [], guessed = {},
        letters = init_letters, current_player_index = cpi, players = ps,
        total_players = total_player, current_round = 1, total_rounds = 3,
        words_clues = [], hint_active = False, hint_message = [], difficulty = None,
        game_state = ''playing'',
        exit_button = Button 100 550 250 50, continue_button = Button 550 550 400 50,
        clues_file = file, rng = draws, mixer = [], hint_text_size = text_size\<rparr>"

definition start :: "game \<Rightarrow> string \<Rightarrow> stop + game" where
  "start g d =
     (let g1 = g\<lparr>difficulty := Some d, hangman_status := 0, guessed := {}\<rparr>;
          g2 = load_clues g1
      in and_then (dict_getitem (words_clues g2) d) (\<lambda>ws.
         and_then (random_choice g2 (dict_keys ws)) (\<lambda>(w, g3).
         Inr (g3\<lparr>current_word := w, letters := init_letters,
                  hint_active := False, hint_message := []\<rparr>))))"

definition reset_game_state :: "game \<Rightarrow> stop + game" where
  "reset_game_state g =
     (let g1 = g\<lparr>guessed := {}, hangman_status := 0, hint_active := False, hint_message := []\<rparr>
      in and_then (clues_getitem (words_clues g1) (difficulty g1)) (\<lambda>ws.
         and_then (random_choice g1 (dict_keys ws)) (\<lambda>(w, g2).
         let g3 = g2\<lparr>current_word := w, letters := init_letters, game_state := ''playing''\<rparr>
         in and_then (getitem (players g3) (current_player_index g3)) (\<lambda>current_player.
            Inr (g3\<lparr>players := (players g3)
                   [current_player_index g3 := current_player\<lparr>hints_used := False\<rparr>]\<rparr>)))))"

definition is_word_guessed :: "game \<Rightarrow> bool" where
  "is_word_guessed g =
     (if strip (current_word g) = [] then False
      else list_all (\<lambda>letter. letter \<in> guessed g) (filter isalpha (current_word g)))"

text \<open>\<open>HangmanGame.provide_hint\<close>.\<close>

definition provide_hint :: "game \<Rightarrow> stop + (string \<times> game)" where
  "provide_hint g =
     and_then (getitem (players g) (current_player_index g)) (\<lambda>current_player.
       case player_provide_hint current_player (words_clues g) (difficulty g) (current_word g) of
         (hint, p) \<Rightarrow> Inr (hint, g\<lparr>players := (players g)[current_player_index g := p]\<rparr>))"

subsection \<open>Drawing\<close>

text \<open>
  Rendering is left out; what remains of the drawing methods is the lookups that can
  raise, the rectangle of the hint button and the sounds.
\<close>

definition draw_hint_button :: "game \<Rightarrow> int \<times> int \<times> int \<times> int" where
  "draw_hint_button g = (case hint_text_size g of (w, h) \<Rightarrow> (10, 10, w + 20, h + 20))"

definition collidepoint :: "int \<times> int \<times> int \<times> int \<Rightarrow> int \<times> int \<Rightarrow> bool" where
  "collidepoint r p =
     (case r of (x, y, w, h) \<Rightarrow> x \<le> fst p \<and> fst p < x + w \<and> y \<le> snd p \<and> snd p < y + h)"

definition display_status :: "game \<Rightarrow> stop + unit" where
  "display_status g =
     and_then (getitem (players g) (current_player_index g)) (\<lambda>current_player. Inr ())"

definition draw :: "game \<Rightarrow> stop + unit" where
  "draw g = and_then (images_getitem (hangman_status g)) (\<lambda>image. display_status g)"

definition display_end_round_message :: "game \<Rightarrow> string \<Rightarrow> bool \<Rightarrow> bool option \<Rightarrow> game" where
  "display_end_round_message g message game_over win =
     (if game_over then
        (if win = Some True then play g end_round_win_sound else play g end_round_lose_sound)
      else g)"

subsection \<open>Events while playing\<close>

text \<open>
  The loop over \<open>self.letters\<close> in \<open>_handle_events\<close> stops at the first button that is
  visible and within \<open>RADIUS\<close> of the click. \<open>click_letter\<close> finds that button and
  clears its flag; \<open>guess_letter\<close> is the body run for it.
\<close>

fun click_letter :: "letter list \<Rightarrow> int \<Rightarrow> int \<Rightarrow> (char \<times> letter list) option" where
  "click_letter [] m_x m_y = None"
| "click_letter ((x, y, ltr, visible) # rest) m_x m_y =
     (if visible \<and> within_radius x y m_x m_y then Some (ltr, (x, y, ltr, False) # rest)
      else (case click_letter rest m_x m_y of
              None \<Rightarrow> None
            | Some (c, rest') \<Rightarrow> Some (c, (x, y, ltr, visible) # rest')))"

definition guess_letter :: "game \<Rightarrow> char \<Rightarrow> game" where
  "guess_letter g ltr =
     (let guessed_letter = lower ltr in
      if guessed_letter \<notin> guessed g then
        (let g1 = g\<lparr>guessed := insert guessed_letter (guessed g)\<rparr> in
         if guessed_letter \<in> set (current_word g1) then play g1 guess_correct_sound
         else (let g2 = play g1 guess_wrong_sound in
               if hangman_status g2 < int (length IMAGES) - 1
               then g2\<lparr>hangman_status := hangman_status g2 + 1\<rparr>
               else g2))
      else g)"

text \<open>\<open>_handle_events\<close>; its return value is \<open>True\<close> on every path.\<close>

definition handle_events :: "game \<Rightarrow> int \<Rightarrow> int \<Rightarrow> stop + game" where
  "handle_events g m_x m_y =
     (case click_letter (letters g) m_x m_y of
        Some (ltr, ls) \<Rightarrow> Inr (guess_letter (g\<lparr>letters := ls\<rparr>) ltr)
      | None \<Rightarrow>
          and_then
            (if collidepoint (draw_hint_button g) (m_x, m_y)
             then and_then (provide_hint g) (\<lambda>(hint, g1).
                    Inr (g1\<lparr>hint_message := hint, hint_active := True\<rparr>))
             else Inr g) (\<lambda>g2.
          and_then (draw g2) (\<lambda>u. Inr g2)))"


definition update_scores :: "game \<Rightarrow> stop + game" where
  "update_scores g =
     and_then (getitem (players g) (current_player_index g)) (\<lambda>current_player.
       if is_word_guessed g \<and> hangman_status g < int (length IMAGES) - 1 then
         (let points_to_add = 7 - hangman_status g;
              p1 = update_score current_player points_to_add;
              p2 = (if \<not> hints_used p1 then update_score p1 10 else p1)
          in Inr (g\<lparr>players := (players g)[current_player_index g := p2]\<rparr>))
       else Inr g)"

subsection \<open>The end screens\<close>

definition handle_button_click :: "game \<Rightarrow> int \<Rightarrow> int \<Rightarrow> stop + game" where
  "handle_button_click g m_x m_y =
     (if game_state g \<in> set [''end_of_round''] then
        (if is_over (exit_button g) (m_x, m_y) then Inl SystemExit
         else if is_over (continue_button g) (m_x, m_y) then reset_game_state g
         else Inr g)
      else if game_state g \<in> set [''end_of_game_single_player'',
                                   ''end_of_game_two_players_second''] then
        (if is_over (exit_button g) (m_x, m_y) then Inl SystemExit
         else if is_over (continue_button g) (m_x, m_y) then Inl NewSession
         else Inr g)
      else if game_state g = ''end_of_game_two_players_first'' then
        (if is_over (continue_button g) (m_x, m_y) then
           (if total_players g = 0 then Inl (Raised ZeroDivisionError)
            else reset_game_state
                   (g\<lparr>current_player_index := (current_player_index g + 1) mod total_players g,
                      current_round := 1\<rparr>))
         else if is_over (exit_button g) (m_x, m_y) then Inl SystemExit
         else Inr g)
      else Inr g)"

text \<open>
  \<open>wait_for_user_input\<close> polls \<open>pygame.event.get()\<close> until a batch holds a click; the
  batches still to come are its second argument, and it never returns when they run
  out. \<open>wait_events\<close> is its inner loop over one batch; the flag says whether a click
  was seen.
\<close>

fun wait_events :: "game \<Rightarrow> event list \<Rightarrow> bool \<Rightarrow> stop + (game \<times> bool)" where
  "wait_events g [] clicked = Inr (g, clicked)"
| "wait_events g (QUIT # es) clicked = Inl SystemExit"
| "wait_events g (MOUSEBUTTONDOWN m_x m_y # es) clicked =
     and_then (handle_button_click g m_x m_y) (\<lambda>g1. wait_events g1 es True)"
| "wait_events g (OTHER # es) clicked = wait_events g es clicked"

fun wait_for_user_input :: "game \<Rightarrow> event list list \<Rightarrow> stop + (game \<times> event list list)" where
  "wait_for_user_input g [] = Inl Blocked"
| "wait_for_user_input g (batch # later) =
     and_then (wait_events g batch False) (\<lambda>(g1, clicked).
       if clicked then Inr (g1, later) else wait_for_user_input g1 later)"

definition display_game_over_single_player ::
  "game \<Rightarrow> event list list \<Rightarrow> stop + (game \<times> event list list)" where
  "display_game_over_single_player g pending =
     and_then (getitem (players g) 0) (\<lambda>p0.
       wait_for_user_input (play g end_game_sound) pending)"

definition display_first_player_end ::
  "game \<Rightarrow> event list list \<Rightarrow> stop + (game \<times> event list list)" where
  "display_first_player_end g pending =
     and_then (getitem (players g) 0) (\<lambda>p0.
       wait_for_user_input (play g end_game_sound) pending)"

definition display_game_over_two_players ::
  "game \<Rightarrow> event list list \<Rightarrow> stop + (game \<times> event list list)" where
  "display_game_over_two_players g pending =
     and_then (getitem (players g) 0) (\<lambda>p0.
     and_then (getitem (players g) 1) (\<lambda>p1.
       wait_for_user_input (play g end_game_sound) pending))"

subsection \<open>Round progression\<close>

definition next_round :: "game \<Rightarrow> event list list \<Rightarrow> stop + (game \<times> event list list)" where
  "next_round g pending =
     and_then (reset_game_state (g\<lparr>current_round := current_round g + 1\<rparr>)) (\<lambda>g1.
       Inr (g1, pending))"

definition handle_end_of_round ::
  "game \<Rightarrow> event list list \<Rightarrow> stop + (game \<times> event list list)" where
  "handle_end_of_round g pending =
     (if total_players g = 1 then
        (if current_round g < total_rounds g then next_round g pending
         else display_game_over_single_player
                (g\<lparr>game_state := ''end_of_game_single_player''\<rparr>) pending)
      else
        (if current_player_index g + 1 = total_players g then
           (if current_round g < total_rounds g then next_round g pending
            else display_game_over_two_players
                   (g\<lparr>game_state := ''end_of_game_two_players_second''\<rparr>) pending)
         else
           (if current_round g < total_rounds g then next_round g pending
            else display_first_player_end
                   (g\<lparr>game_state := ''end_of_game_two_players_first''\<rparr>) pending)))"

subsection \<open>The main loop body\<close>

text \<open>
  \<open>pygame.event.get()\<close> in \<open>run\<close> does not wait: with nothing pending it returns no
  event.
\<close>

definition event_get :: "event list list \<Rightarrow> event list \<times> event list list" where
  "event_get pending = (case pending of [] \<Rightarrow> ([], []) | batch # later \<Rightarrow> (batch, later))"

text \<open>
  The loop over the events in \<open>run\<close>; the flag says that \<open>QUIT\<close> was met, on which
  \<open>run\<close> returns \<open>False\<close> at once.
\<close>

fun playing_events :: "game \<Rightarrow> event list \<Rightarrow> stop + (game \<times> bool)" where
  "playing_events g [] = Inr (g, False)"
| "playing_events g (QUIT # es) = Inr (g, True)"
| "playing_events g (MOUSEBUTTONDOWN m_x m_y # es) =
     and_then (handle_events g m_x m_y) (\<lambda>g1. playing_events g1 es)"
| "playing_events g (OTHER # es) = playing_events g es"

text \<open>The block of \<open>run\<close> under the comment \<open>Check game over conditions\<close>.\<close>

definition check_game_over ::
  "game \<Rightarrow> event list list \<Rightarrow> stop + (game \<times> event list list)" where
  "check_game_over g pending =
     (if guessed g \<noteq> {} then
        (if hangman_status g \<ge> int (length IMAGES) - 1 then
           (let g1 = g\<lparr>guessed_word := current_word g\<rparr>;
                g2 = display_end_round_message g1 ''You were hanged!'' True (Some False)
            in and_then (update_scores g2) (\<lambda>g3. handle_end_of_round g3 pending))
         else if is_word_guessed g then
           (let g1 = g\<lparr>guessed_word := current_word g\<rparr>
            in and_then (draw g1) (\<lambda>u.
               let g2 = display_end_round_message g1 ''Congratulations, you won!'' True (Some True)
               in and_then (update_scores g2) (\<lambda>g3. handle_end_of_round g3 pending)))
         else Inr (g, pending))
      else Inr (g, pending))"

definition run :: "game \<Rightarrow> event list list \<Rightarrow> stop + (bool \<times> game \<times> event list list)" where
  "run g pending =
     (if game_state g = ''playing'' then
        (case event_get pending of (batch, later) \<Rightarrow>
           and_then (playing_events g batch) (\<lambda>(g1, quit).
             if quit then Inr (False, g1, later)
             else and_then (check_game_over g1 later) (\<lambda>(g2, later2).
                  and_then (draw g2) (\<lambda>u. Inr (True, g2, later2)))))
      else if game_state g \<in> set [''end_of_round'', ''end_of_game_single_player'',
                                   ''end_of_game_two_players_first'',
                                   ''end_of_game_two_players_second''] then
        and_then (wait_for_user_input g pending) (\<lambda>(g1, later).
        and_then (draw g1) (\<lambda>u. Inr (True, g1, later)))
      else and_then (draw g) (\<lambda>u. Inr (True, g, pending)))"

subsection \<open>Notions used in the statements\<close>

text \<open>The clue that \<open>Player.provide_hint\<close> looks up for the current word.\<close>

definition hint_for :: "game \<Rightarrow> string" where
  "hint_for g =
     dict_get (clues_get (words_clues g) (difficulty g)) (current_word g) ''No clue available''"


subsection \<open>A sample session\<close>

text \<open>
  Two players, a clue file with one food word, one film title made of digits and no
  word for the hard level; the hint button's text renders at 44 by 28 pixels.
\<close>

definition sample_clues :: clues where
  "sample_clues =
     [(''easy'', [(''cat'', ''It purrs'')]),
      (''medium'', [(''1917'', ''One long take through the trenches'')]),
      (''hard'', [])]"

definition sample_game :: game where
  "sample_game =
     HangmanGame 2 [Player ''Player 1'', Player ''Player 2''] 0 (Loaded sample_clues) [] (44, 28)"

text \<open>The rounds that \<open>start\<close> opens on the sample game at the easy and medium levels.\<close>

definition cat_round :: game where
  "cat_round = sample_game\<lparr>difficulty := Some ''easy'', current_word := ''cat''\<rparr>"

definition film_round :: game where
  "film_round = sample_game\<lparr>difficulty := Some ''medium'', current_word := ''1917''\<rparr>"

text \<open>The sample game when \<open>words_clues.json\<close> is missing.\<close>

definition no_clues_game :: game where
  "no_clues_game =
     HangmanGame 2 [Player ''Player 1'', Player ''Player 2''] 0 FileNotFoundError [] (44, 28)"

text \<open>
  The easy round after a click on the hint button, after a click on the letter c, after
  the clicks b, d, c, a, t (won with two wrong guesses), and after the clicks
  b, d, e, f, g, h, i (lost).
\<close>

definition cat_round_hint :: game where
  "cat_round_hint =
     cat_round\<lparr>players := [(Player ''Player 1'')\<lparr>hints_used := True, hints_left := 2\<rparr>,
                           Player ''Player 2''],
                hint_active := True, hint_message := ''It purrs''\<rparr>"

definition cat_round_c :: game where
  "cat_round_c =
     cat_round\<lparr>guessed := {CHR ''c''},
                letters := map (\<lambda>(x, y, ltr, visible). (x, y, ltr, ltr \<notin> set ''c'')) init_letters,
                mixer := [guess_correct_sound]\<rparr>"

definition cat_won :: game where
  "cat_won =
     cat_round\<lparr>hangman_status := 2, guessed := set ''bdcat'',
                letters := map (\<lambda>(x, y, ltr, visible). (x, y, ltr, ltr \<notin> set ''bdcat'')) init_letters,
                mixer := [guess_wrong_sound, guess_wrong_sound, guess_correct_sound,
                          guess_correct_sound, guess_correct_sound]\<rparr>"

definition cat_lost :: game where
  "cat_lost =
     cat_round\<lparr>hangman_status := 7, guessed := set ''bdefghi'',
                letters := map (\<lambda>(x, y, ltr, visible). (x, y, ltr, ltr \<notin> set ''bdefghi'')) init_letters,
                mixer := [guess_wrong_sound, guess_wrong_sound, guess_wrong_sound, guess_wrong_sound,
                          guess_wrong_sound, guess_wrong_sound, guess_wrong_sound]\<rparr>"

section \<open>Properties of the game logic\<close>

subsection \<open>Sequencing, strings and the hint of a player\<close>

lemma and_then_Inl: "and_then (Inl s) f = Inl s"
  by (simp add: and_then_def)

lemma and_then_Inr: "and_then (Inr a) f = f a"
  by (simp add: and_then_def)

lemma and_then_eq_Inr:
  "and_then m f = Inr b \<longleftrightarrow> (\<exists>a. m = Inr a \<and> f a = Inr b)"
  by (cases m) (simp_all add: and_then_def)

lemma last_image: "int (length IMAGES) - 1 = 7"
  by (simp add: IMAGES_def)

lemma strip_empty_iff: "strip s = [] \<longleftrightarrow> (\<forall>c\<in>set s. isspace c)"
proof
  assume "strip s = []"
  then have "dropWhile isspace (rev (dropWhile isspace s)) = []"
    by (simp add: strip_def)
  then have all: "\<forall>c\<in>set (dropWhile isspace s). isspace c"
    by simp
  show "\<forall>c\<in>set s. isspace c"
  proof (cases "dropWhile isspace s")
    case Nil
    then show ?thesis by simp
  next
    case (Cons c cs)
    then have "\<not> isspace c" by (metis hd_dropWhile list.sel(1) list.distinct(1))
    with all Cons show ?thesis by simp
  qed
next
  assume "\<forall>c\<in>set s. isspace c"
  then show "strip s = []" by (auto simp: strip_def dest: set_dropWhileD)
qed

lemma alpha_not_space: "isalpha c \<Longrightarrow> \<not> isspace c"
  by (auto simp: isalpha_def isspace_def Let_def)

text \<open>
  Claim C5. With a hint left, \<open>Player.provide_hint\<close> takes exactly one hint from
  \<open>hints_left\<close>, sets \<open>hints_used\<close> and changes nothing else of the player; it returns
  the clue stored for the difficulty and the word, or \<open>No clue available\<close> when the
  difficulty or the word has no entry. With \<open>hints_left = 0\<close> it returns
  \<open>No hints left.\<close> as an ordinary value and the player is unchanged.
\<close>

theorem provide_hint_budget:
  "(0 < hints_left p \<longrightarrow>
      snd (player_provide_hint p wc d w) = p\<lparr>hints_left := hints_left p - 1, hints_used := True\<rparr> \<and>
      fst (player_provide_hint p wc d w) =
        (case d of None \<Rightarrow> ''No clue available''
         | Some k \<Rightarrow> (case map_of wc k of None \<Rightarrow> ''No clue available''
            | Some ws \<Rightarrow> (case map_of ws w of None \<Rightarrow> ''No clue available'' | Some c \<Rightarrow> c))))
   \<and> (hints_left p = 0 \<longrightarrow> player_provide_hint p wc d w = (''No hints left.'', p))"
  by (simp add: player_provide_hint_def clues_get_def dict_get_def Let_def
        split: option.splits)

text \<open>
  Claim C4, as the code has it. \<open>_is_word_guessed\<close> is true exactly when the word
  holds a character that is not whitespace and each of its alphabetic characters has
  been guessed. An empty or blank word is therefore never guessed; a word that is not
  blank and has no letter is guessed whatever the guessed set is.
\<close>

theorem is_word_guessed_iff:
  "is_word_guessed g \<longleftrightarrow>
     (\<exists>c\<in>set (current_word g). \<not> isspace c) \<and>
     (\<forall>c\<in>set (current_word g). isalpha c \<longrightarrow> c \<in> guessed g)"
  by (auto simp: is_word_guessed_def strip_empty_iff list_all_iff)

subsection \<open>Clicks on the hint button\<close>

lemma images_getitem_ok: "- 8 \<le> i \<Longrightarrow> i < 8 \<Longrightarrow> \<exists>s. images_getitem i = Inr s"
  by (simp add: images_getitem_def IMAGES_def Let_def)

lemma draw_ok:
  assumes "current_player_index g < length (players g)" "- 8 \<le> hangman_status g" "hangman_status g < 8"
  shows "draw g = Inr ()"
proof -
  obtain s where "images_getitem (hangman_status g) = Inr s"
    using images_getitem_ok assms(2,3) by blast
  then show ?thesis
    using assms(1) by (simp add: draw_def display_status_def getitem_def and_then_Inr)
qed

lemma hint_click:
  assumes miss: "click_letter (letters g) m_x m_y = None"
      and hit: "collidepoint (draw_hint_button g) (m_x, m_y)"
      and idx: "current_player_index g < length (players g)"
      and st: "- 8 \<le> hangman_status g" "hangman_status g < 8"
  shows "handle_events g m_x m_y =
           Inr (g\<lparr>players := (players g)[current_player_index g :=
                     snd (player_provide_hint (players g ! current_player_index g)
                            (words_clues g) (difficulty g) (current_word g))],
                  hint_message := fst (player_provide_hint (players g ! current_player_index g)
                            (words_clues g) (difficulty g) (current_word g)),
                  hint_active := True\<rparr>)"
proof -
  let ?r = "player_provide_hint (players g ! current_player_index g)
              (words_clues g) (difficulty g) (current_word g)"
  let ?g1 = "g\<lparr>players := (players g)[current_player_index g := snd ?r]\<rparr>"
  let ?g2 = "?g1\<lparr>hint_message := fst ?r, hint_active := True\<rparr>"
  have ph: "provide_hint g = Inr (fst ?r, ?g1)"
    using idx by (simp add: provide_hint_def getitem_def and_then_Inr split: prod.splits)
  have "draw ?g2 = Inr ()"
    using idx st by (intro draw_ok) simp_all
  then show ?thesis
    using miss hit ph by (simp add: handle_events_def and_then_Inr)
qed

text \<open>
  Claim C10. Hints are not rationed by round. For a click that meets no visible letter
  button and lies in the hint button, handled \<open>k\<close> times in a row within one round by
  a player who has at least \<open>k\<close> hints, every click takes one more hint, whether or not
  \<open>hints_used\<close> was set before: \<open>hints_left\<close> ends \<open>k\<close> lower, the word is the same
  and the message shown is the clue of that word. With \<open>k = 3\<close> a new player spends
  the whole budget in one round.
\<close>

theorem hints_not_gated_per_round:
  assumes "click_letter (letters g) m_x m_y = None"
      and "collidepoint (draw_hint_button g) (m_x, m_y)"
      and "current_player_index g < length (players g)"
      and "- 8 \<le> hangman_status g" "hangman_status g < 8"
      and "int k \<le> hints_left (players g ! current_player_index g)"
  shows "\<exists>g'. playing_events g (replicate k (MOUSEBUTTONDOWN m_x m_y)) = Inr (g', False) \<and>
           current_word g' = current_word g \<and> guessed g' = guessed g \<and>
           hangman_status g' = hangman_status g \<and>
           current_player_index g' = current_player_index g \<and>
           hints_left (players g' ! current_player_index g) =
             hints_left (players g ! current_player_index g) - int k \<and>
           (0 < k \<longrightarrow> hint_message g' = hint_for g \<and> hint_active g' \<and>
                        hints_used (players g' ! current_player_index g))"
  using assms
proof (induction k arbitrary: g)
  case 0
  then show ?case by simp
next
  case (Suc k)
  let ?i = "current_player_index g"
  let ?r = "player_provide_hint (players g ! ?i) (words_clues g) (difficulty g) (current_word g)"
  let ?g1 = "g\<lparr>players := (players g)[?i := snd ?r], hint_message := fst ?r, hint_active := True\<rparr>"
  have pos: "0 < hints_left (players g ! ?i)" using Suc.prems(6) by simp
  have step: "handle_events g m_x m_y = Inr ?g1"
    using Suc.prems(1-5) by (rule hint_click)
  have r1: "fst ?r = hint_for g"
    using pos by (simp add: player_provide_hint_def hint_for_def Let_def)
  have r2: "hints_left (snd ?r) = hints_left (players g ! ?i) - 1" "hints_used (snd ?r)"
    using pos by (simp_all add: player_provide_hint_def Let_def)
  have pl: "players ?g1 ! ?i = snd ?r" using Suc.prems(3) by simp
  have hf: "hint_for ?g1 = hint_for g" by (simp add: hint_for_def)
  have "\<exists>g'. playing_events ?g1 (replicate k (MOUSEBUTTONDOWN m_x m_y)) = Inr (g', False) \<and>
           current_word g' = current_word ?g1 \<and> guessed g' = guessed ?g1 \<and>
           hangman_status g' = hangman_status ?g1 \<and>
           current_player_index g' = current_player_index ?g1 \<and>
           hints_left (players g' ! current_player_index ?g1) =
             hints_left (players ?g1 ! current_player_index ?g1) - int k \<and>
           (0 < k \<longrightarrow> hint_message g' = hint_for ?g1 \<and> hint_active g' \<and>
                        hints_used (players g' ! current_player_index ?g1))"
  proof (rule Suc.IH)
    show "click_letter (letters ?g1) m_x m_y = None" using Suc.prems(1) by simp
    show "collidepoint (draw_hint_button ?g1) (m_x, m_y)"
      using Suc.prems(2) by (simp add: draw_hint_button_def)
    show "current_player_index ?g1 < length (players ?g1)" using Suc.prems(3) by simp
    show "- 8 \<le> hangman_status ?g1" "hangman_status ?g1 < 8" using Suc.prems(4,5) by simp_all
    show "int k \<le> hints_left (players ?g1 ! current_player_index ?g1)"
      using Suc.prems(3,6) r2(1) by simp
  qed
  then obtain g' where g': "playing_events ?g1 (replicate k (MOUSEBUTTONDOWN m_x m_y)) = Inr (g', False)"
      "current_word g' = current_word g" "guessed g' = guessed g"
      "hangman_status g' = hangman_status g" "current_player_index g' = ?i"
      "hints_left (players g' ! ?i) = hints_left (players ?g1 ! ?i) - int k"
      "0 < k \<longrightarrow> hint_message g' = hint_for g \<and> hint_active g' \<and> hints_used (players g' ! ?i)"
    using hf by auto
  have k0: "k = 0 \<Longrightarrow> g' = ?g1" using g'(1) by simp
  have "playing_events g (replicate (Suc k) (MOUSEBUTTONDOWN m_x m_y)) = Inr (g', False)"
    using step g'(1) by (simp add: and_then_Inr)
  moreover have "hints_left (players g' ! ?i) = hints_left (players g ! ?i) - int (Suc k)"
    using g'(6) pl r2(1) by simp
  moreover have "hint_message g' = hint_for g \<and> hint_active g' \<and> hints_used (players g' ! ?i)"
  proof (cases "k = 0")
    case True
    then show ?thesis using k0 r1 r2(2) pl by simp
  next
    case False
    then show ?thesis using g'(7) by simp
  qed
  ultimately show ?case using g'(2-5) by blast
qed

subsection \<open>Guesses and the wrong-guess count\<close>

lemma guess_letter_status:
  "hangman_status (guess_letter g ltr) =
     (if lower ltr \<in> guessed g \<or> lower ltr \<in> set (current_word g) then hangman_status g
      else if hangman_status g < 7 then hangman_status g + 1 else hangman_status g)"
  by (simp add: guess_letter_def Let_def play_def last_image)

lemma guess_letter_frame:
  "current_player_index (guess_letter g ltr) = current_player_index g"
  "players (guess_letter g ltr) = players g"
  "current_word (guess_letter g ltr) = current_word g"
  "letters (guess_letter g ltr) = letters g"
  "hint_text_size (guess_letter g ltr) = hint_text_size g"
  by (simp_all add: guess_letter_def Let_def play_def)


lemma provide_hint_result:
  assumes "provide_hint g = Inr (hint, g1)"
  shows "\<exists>p. g1 = g\<lparr>players := (players g)[current_player_index g := p]\<rparr>"
proof (cases "player_provide_hint (players g ! current_player_index g)
                (words_clues g) (difficulty g) (current_word g)")
  case (Pair h p)
  with assms show ?thesis
    by (auto simp: provide_hint_def and_then_eq_Inr getitem_def split: if_splits)
qed

lemma handle_events_miss:
  assumes "click_letter (letters g) m_x m_y = None" "handle_events g m_x m_y = Inr g'"
  shows "g' = g \<or> (\<exists>ps h. g' = g\<lparr>players := ps, hint_message := h, hint_active := True\<rparr>
                        \<and> length ps = length (players g))"
proof (cases "collidepoint (draw_hint_button g) (m_x, m_y)")
  case False
  with assms show ?thesis
    by (auto simp: handle_events_def and_then_eq_Inr)
next
  case True
  with assms obtain hint g1 where ph: "provide_hint g = Inr (hint, g1)"
      and g': "g' = g1\<lparr>hint_message := hint, hint_active := True\<rparr>"
    by (auto simp: handle_events_def and_then_eq_Inr)
  from provide_hint_result [OF ph]
  obtain p where "g1 = g\<lparr>players := (players g)[current_player_index g := p]\<rparr>" ..
  with g' show ?thesis by auto
qed

lemma handle_events_hit:
  "click_letter (letters g) m_x m_y = Some (ltr, ls) \<Longrightarrow>
   handle_events g m_x m_y = Inr (guess_letter (g\<lparr>letters := ls\<rparr>) ltr)"
  by (simp add: handle_events_def)

lemma handle_events_status:
  assumes "handle_events g m_x m_y = Inr g'"
  shows "hangman_status g \<le> hangman_status g' \<and>
         (hangman_status g \<le> 7 \<longrightarrow> hangman_status g' \<le> 7)"
proof (cases "click_letter (letters g) m_x m_y")
  case None
  from handle_events_miss [OF None assms] show ?thesis by auto
next
  case (Some a)
  obtain ltr ls where a: "a = (ltr, ls)" by (cases a)
  from Some a assms have "g' = guess_letter (g\<lparr>letters := ls\<rparr>) ltr"
    by (simp add: handle_events_hit)
  then show ?thesis by (simp add: guess_letter_status)
qed

lemma handle_events_frame:
  assumes "handle_events g m_x m_y = Inr g'"
  shows "current_player_index g' = current_player_index g \<and>
         length (players g') = length (players g)"
proof (cases "click_letter (letters g) m_x m_y")
  case None
  from handle_events_miss [OF None assms] show ?thesis by auto
next
  case (Some a)
  obtain ltr ls where a: "a = (ltr, ls)" by (cases a)
  from Some a assms have "g' = guess_letter (g\<lparr>letters := ls\<rparr>) ltr"
    by (simp add: handle_events_hit)
  then show ?thesis by (simp add: guess_letter_frame)
qed

lemma handle_events_returns:
  assumes "current_player_index g < length (players g)"
      and "- 8 \<le> hangman_status g" "hangman_status g < 8"
  shows "\<exists>g'. handle_events g m_x m_y = Inr g'"
proof (cases "click_letter (letters g) m_x m_y")
  case (Some a)
  then show ?thesis by (cases a) (simp add: handle_events_hit)
next
  case None
  show ?thesis
  proof (cases "collidepoint (draw_hint_button g) (m_x, m_y)")
    case True
    from hint_click [OF None True assms] show ?thesis by blast
  next
    case False
    with None draw_ok [OF assms] show ?thesis
      by (simp add: handle_events_def and_then_Inr)
  qed
qed

lemma playing_events_status:
  "playing_events g es = Inr (g', quit) \<Longrightarrow> hangman_status g \<le> 7 \<Longrightarrow>
   hangman_status g \<le> hangman_status g' \<and> hangman_status g' \<le> 7"
proof (induction g es arbitrary: g' quit rule: playing_events.induct)
  case (3 g m_x m_y es)
  from "3.prems"(1) obtain g1 where h: "handle_events g m_x m_y = Inr g1"
      and rest: "playing_events g1 es = Inr (g', quit)"
    by (auto simp: and_then_eq_Inr)
  from handle_events_status [OF h] "3.prems"(2)
  have s1: "hangman_status g \<le> hangman_status g1" "hangman_status g1 \<le> 7" by simp_all
  from "3.IH" [OF rest s1(2)] s1(1) show ?case by simp
qed simp_all

lemma playing_events_returns:
  "current_player_index g < length (players g) \<Longrightarrow> 0 \<le> hangman_status g \<Longrightarrow>
   hangman_status g \<le> 7 \<Longrightarrow> \<exists>g' quit. playing_events g es = Inr (g', quit)"
proof (induction g es rule: playing_events.induct)
  case (3 g m_x m_y es)
  from "3.prems" obtain g1 where h: "handle_events g m_x m_y = Inr g1"
    using handle_events_returns [of g m_x m_y] by auto
  from handle_events_status [OF h] handle_events_frame [OF h] "3.prems"
  have "current_player_index g1 < length (players g1)" "0 \<le> hangman_status g1"
       "hangman_status g1 \<le> 7" by simp_all
  from "3.IH" [OF this] h show ?case by (simp add: and_then_Inr)
qed auto

text \<open>
  Claim C2. Over any batch of events handled while playing, \<open>hangman_status\<close> never
  decreases and, starting at 7 or below, stays at 7 or below. A click on a letter
  button leaves it as it is when the letter was guessed before or occurs in the word,
  and otherwise adds exactly 1 unless it is 7 already. With a valid player index and
  a status between 0 and 7 the batch is handled without an exception.
\<close>

theorem wrong_guess_count_bounded:
  "(hangman_status g \<le> 7 \<and> playing_events g es = Inr (g', quit) \<longrightarrow>
      hangman_status g \<le> hangman_status g' \<and> hangman_status g' \<le> 7)
   \<and> (click_letter (letters g) m_x m_y = Some (ltr, ls) \<longrightarrow>
      (\<exists>g1. handle_events g m_x m_y = Inr g1 \<and>
         hangman_status g1 =
           (if lower ltr \<in> guessed g \<or> lower ltr \<in> set (current_word g) then hangman_status g
            else if hangman_status g < 7 then hangman_status g + 1
            else hangman_status g)))
   \<and> (current_player_index g < length (players g) \<and> 0 \<le> hangman_status g \<and>
       hangman_status g \<le> 7 \<longrightarrow> (\<exists>g1 q. playing_events g es = Inr (g1, q)))"
proof (intro conjI impI)
  assume "hangman_status g \<le> 7 \<and> playing_events g es = Inr (g', quit)"
  then show "hangman_status g \<le> hangman_status g'" "hangman_status g' \<le> 7"
    using playing_events_status by blast+
next
  assume "click_letter (letters g) m_x m_y = Some (ltr, ls)"
  then show "\<exists>g1. handle_events g m_x m_y = Inr g1 \<and>
         hangman_status g1 =
           (if lower ltr \<in> guessed g \<or> lower ltr \<in> set (current_word g) then hangman_status g
            else if hangman_status g < 7 then hangman_status g + 1
            else hangman_status g)"
    by (simp add: handle_events_hit guess_letter_status)
next
  assume "current_player_index g < length (players g) \<and> 0 \<le> hangman_status g \<and>
       hangman_status g \<le> 7"
  then show "\<exists>g1 q. playing_events g es = Inr (g1, q)"
    using playing_events_returns by blast
qed

subsection \<open>A letter guessed twice\<close>











subsection \<open>Choosing a word: reset and start\<close>

lemma random_choice_result:
  assumes "random_choice g xs = Inr (w, g2)"
  shows "xs \<noteq> [] \<and> w \<in> set xs \<and> (\<exists>rs. g2 = g\<lparr>rng := rs\<rparr>)"
proof -
  from assms have ne: "xs \<noteq> []"
    by (auto simp: random_choice_def split: if_splits)
  show ?thesis
  proof (cases "rng g")
    case Nil
    with assms ne have "w = xs ! 0" "g2 = g\<lparr>rng := []\<rparr>"
      by (simp_all add: random_choice_def)
    with ne show ?thesis by (auto simp: neq_Nil_conv)
  next
    case (Cons r rs)
    with assms ne have "w = xs ! (r mod length xs)" "g2 = g\<lparr>rng := rs\<rparr>"
      by (auto simp: random_choice_def)
    with ne show ?thesis by auto
  qed
qed

lemma random_choice_returns:
  "xs \<noteq> [] \<Longrightarrow> \<exists>w g2. random_choice g xs = Inr (w, g2)"
  by (simp add: random_choice_def split: list.splits)

lemma reset_game_state_result:
  assumes "reset_game_state g = Inr g'"
  shows "\<exists>ws w rs. clues_getitem (words_clues g) (difficulty g) = Inr ws \<and>
           w \<in> set (dict_keys ws) \<and> current_player_index g < length (players g) \<and>
           g' = g\<lparr>guessed := {}, hangman_status := 0, hint_active := False, hint_message := [],
                  rng := rs, current_word := w, letters := init_letters,
                  game_state := ''playing'',
                  players := (players g)[current_player_index g :=
                     (players g ! current_player_index g)\<lparr>hints_used := False\<rparr>]\<rparr>"
proof -
  let ?g1 = "g\<lparr>guessed := {}, hangman_status := 0, hint_active := False, hint_message := []\<rparr>"
  from assms obtain ws wg where ws: "clues_getitem (words_clues g) (difficulty g) = Inr ws"
      and ch: "random_choice ?g1 (dict_keys ws) = Inr wg"
    by (auto simp: reset_game_state_def Let_def and_then_eq_Inr)
  obtain w g2 where wg: "wg = (w, g2)" by (cases wg)
  from random_choice_result [OF ch [unfolded wg]]
  obtain rs where w: "w \<in> set (dict_keys ws)" and g2: "g2 = ?g1\<lparr>rng := rs\<rparr>" by blast
  from assms ws ch wg g2 have idx: "current_player_index g < length (players g)"
    by (auto simp: reset_game_state_def Let_def and_then_Inr and_then_eq_Inr getitem_def
          split: if_splits)
  from assms ws ch wg g2 idx
  have "g' = g\<lparr>guessed := {}, hangman_status := 0, hint_active := False, hint_message := [],
                  rng := rs, current_word := w, letters := init_letters,
                  game_state := ''playing'',
                  players := (players g)[current_player_index g :=
                     (players g ! current_player_index g)\<lparr>hints_used := False\<rparr>]\<rparr>"
    by (simp add: reset_game_state_def Let_def and_then_Inr getitem_def)
  with ws w idx show ?thesis by blast
qed

lemma reset_game_state_returns:
  assumes "clues_getitem (words_clues g) (difficulty g) = Inr ws" "ws \<noteq> []"
      and "current_player_index g < length (players g)"
  shows "\<exists>g'. reset_game_state g = Inr g'"
proof -
  let ?g1 = "g\<lparr>guessed := {}, hangman_status := 0, hint_active := False, hint_message := []\<rparr>"
  from assms(2) have "dict_keys ws \<noteq> []" by (simp add: dict_keys_def)
  from random_choice_returns [OF this]
  obtain w g2 where ch: "random_choice ?g1 (dict_keys ws) = Inr (w, g2)" by blast
  from random_choice_result [OF ch] obtain rs where "g2 = ?g1\<lparr>rng := rs\<rparr>" by blast
  with assms ch show ?thesis
    by (simp add: reset_game_state_def Let_def and_then_Inr getitem_def)
qed

lemma map_update_same: "f y = f (xs ! k) \<Longrightarrow> map f (xs[k := y]) = map f xs"
  by (induction xs arbitrary: k) (auto split: nat.splits)

text \<open>
  Claim C6. A call of \<open>reset_game_state\<close> that returns has cleared \<open>hints_used\<close> of
  the current player and has left \<open>hints_left\<close> of every player as it was; it returns
  whenever the difficulty has a word and the player index is valid. A new player
  starts with 3 hints.
\<close>

theorem round_reset_keeps_hint_budget:
  "(\<forall>g'. reset_game_state g = Inr g' \<longrightarrow>
       map hints_left (players g') = map hints_left (players g) \<and>
       \<not> hints_used (players g' ! current_player_index g) \<and>
       current_player_index g' = current_player_index g)
   \<and> (clues_getitem (words_clues g) (difficulty g) = Inr ws \<and> ws \<noteq> [] \<and>
       current_player_index g < length (players g) \<longrightarrow> (\<exists>g'. reset_game_state g = Inr g'))
   \<and> hints_left (Player n) = 3"
proof (intro conjI allI impI)
  fix g' assume r: "reset_game_state g = Inr g'"
  from reset_game_state_result [OF r]
  obtain rs w where idx: "current_player_index g < length (players g)"
    and g': "g' = g\<lparr>guessed := {}, hangman_status := 0, hint_active := False, hint_message := [],
                  rng := rs, current_word := w, letters := init_letters,
                  game_state := ''playing'',
                  players := (players g)[current_player_index g :=
                     (players g ! current_player_index g)\<lparr>hints_used := False\<rparr>]\<rparr>"
    by blast
  show "map hints_left (players g') = map hints_left (players g)"
    by (simp add: g' map_update_same)
  show "\<not> hints_used (players g' ! current_player_index g)"
    using idx by (simp add: g')
  show "current_player_index g' = current_player_index g"
    by (simp add: g')
next
  assume "clues_getitem (words_clues g) (difficulty g) = Inr ws \<and> ws \<noteq> [] \<and>
       current_player_index g < length (players g)"
  then show "\<exists>g'. reset_game_state g = Inr g'"
    using reset_game_state_returns by blast
next
  show "hints_left (Player n) = 3" by (simp add: Player_def)
qed

lemma load_clues_words:
  "words_clues (load_clues g) =
     (case clues_file g of Loaded wc \<Rightarrow> wc | FileNotFoundError \<Rightarrow> [] | JSONDecodeError \<Rightarrow> [])"
  by (simp add: load_clues_def split: file_read.splits)

lemma start_result:
  assumes "start g d = Inr g'"
  shows "\<exists>ws. map_of (words_clues g') d = Some ws \<and> ws \<noteq> [] \<and>
              current_word g' \<in> set (dict_keys ws) \<and> guessed g' = {} \<and>
              words_clues g' = words_clues (load_clues g)"
proof -
  let ?g2 = "load_clues (g\<lparr>difficulty := Some d, hangman_status := 0, guessed := {}\<rparr>)"
  from assms obtain ws wg where ws: "dict_getitem (words_clues ?g2) d = Inr ws"
      and ch: "random_choice ?g2 (dict_keys ws) = Inr wg"
      and g': "(case wg of (w, g3) \<Rightarrow> Inr (g3\<lparr>current_word := w, letters := init_letters,
                  hint_active := False, hint_message := []\<rparr>)) = Inr g'"
    by (auto simp: start_def Let_def and_then_eq_Inr)
  obtain w g3 where wg: "wg = (w, g3)" by (cases wg)
  from random_choice_result [OF ch [unfolded wg]]
  obtain rs where ne: "dict_keys ws \<noteq> []" and w: "w \<in> set (dict_keys ws)"
    and g3: "g3 = ?g2\<lparr>rng := rs\<rparr>" by blast
  from ws have m: "map_of (words_clues ?g2) d = Some ws"
    by (auto simp: dict_getitem_def split: option.splits)
  have g: "guessed ?g2 = {}" "words_clues ?g2 = words_clues (load_clues g)"
    by (simp_all add: load_clues_def split: file_read.splits)
  from g' wg g3 have "g' = ?g2\<lparr>rng := rs, current_word := w, letters := init_letters,
                  hint_active := False, hint_message := []\<rparr>" by simp
  with m ne w g show ?thesis by (auto simp: dict_keys_def)
qed

text \<open>
  Claim C9, as the code has it. \<open>start\<close> raises \<open>KeyError\<close> when the clue file is
  missing or not JSON (\<open>load_clues\<close> has replaced the data by an empty dictionary) or
  has no entry for the difficulty, and \<open>IndexError\<close> when the entry holds no word;
  the exception is not caught. Otherwise it returns with a word of that entry.
\<close>

theorem start_needs_words:
  "(clues_file g = FileNotFoundError \<or> clues_file g = JSONDecodeError \<longrightarrow>
      start g d = Inl (Raised KeyError))
   \<and> (clues_file g = Loaded wc \<and> map_of wc d = None \<longrightarrow> start g d = Inl (Raised KeyError))
   \<and> (clues_file g = Loaded wc \<and> map_of wc d = Some [] \<longrightarrow>
        start g d = Inl (Raised IndexError))
   \<and> (clues_file g = Loaded wc \<and> map_of wc d = Some ws \<and> ws \<noteq> [] \<longrightarrow>
        (\<exists>g'. start g d = Inr g' \<and> current_word g' \<in> set (dict_keys ws)))"
proof (intro conjI impI)
  assume "clues_file g = FileNotFoundError \<or> clues_file g = JSONDecodeError"
  then show "start g d = Inl (Raised KeyError)"
    by (auto simp: start_def load_clues_def dict_getitem_def and_then_Inl)
next
  assume "clues_file g = Loaded wc \<and> map_of wc d = None"
  then show "start g d = Inl (Raised KeyError)"
    by (simp add: start_def load_clues_def dict_getitem_def and_then_Inl)
next
  assume "clues_file g = Loaded wc \<and> map_of wc d = Some []"
  then show "start g d = Inl (Raised IndexError)"
    by (simp add: start_def load_clues_def dict_getitem_def and_then_Inl and_then_Inr
          random_choice_def dict_keys_def)
next
  assume a: "clues_file g = Loaded wc \<and> map_of wc d = Some ws \<and> ws \<noteq> []"
  let ?g2 = "load_clues (g\<lparr>difficulty := Some d, hangman_status := 0, guessed := {}\<rparr>)"
  from a have ws: "dict_getitem (words_clues ?g2) d = Inr ws"
    by (simp add: load_clues_def dict_getitem_def)
  from a have "dict_keys ws \<noteq> []" by (simp add: dict_keys_def)
  from random_choice_returns [OF this]
  obtain w g3 where ch: "random_choice ?g2 (dict_keys ws) = Inr (w, g3)" by blast
  from random_choice_result [OF ch] have "w \<in> set (dict_keys ws)" by blast
  with ws ch show "\<exists>g'. start g d = Inr g' \<and> current_word g' \<in> set (dict_keys ws)"
    by (simp add: start_def Let_def and_then_Inr)
qed

text \<open>
  What \<open>start\<close> raises without a clue file, and at the level that has no word.
\<close>

theorem start_without_clues_file:
  "start (HangmanGame 1 [Player ''Player 1''] 0 FileNotFoundError [] (44, 28)) ''easy''
     = Inl (Raised KeyError)
   \<and> start sample_game ''hard'' = Inl (Raised IndexError)"
  by (simp add: start_def HangmanGame_def sample_game_def sample_clues_def load_clues_def
        dict_getitem_def random_choice_def dict_keys_def and_then_Inl and_then_Inr)

subsection \<open>Fresh rounds, scores at the end of a round, and the handoff between players\<close>

text \<open>
  Claim C8. With no letter guessed, the check of the game-over conditions in \<open>run\<close>
  changes nothing: no message, no score update, no end of round. That is the case
  right after \<open>start\<close> and after \<open>reset_game_state\<close>, and a call of \<open>run\<close> while
  playing whose events leave \<open>guessed\<close> empty only draws and returns \<open>True\<close>.
\<close>

theorem fresh_round_not_terminal:
  "(guessed g = {} \<longrightarrow> check_game_over g pending = Inr (g, pending))
   \<and> (\<forall>g'. start g d = Inr g' \<or> reset_game_state g = Inr g' \<longrightarrow>
         check_game_over g' pending = Inr (g', pending))
   \<and> (game_state g = ''playing'' \<and> playing_events g (fst (event_get pending)) = Inr (g1, False) \<and>
       guessed g1 = {} \<longrightarrow>
         run g pending = and_then (draw g1) (\<lambda>u. Inr (True, g1, snd (event_get pending))))"
proof (intro conjI allI impI)
  assume "guessed g = {}"
  then show "check_game_over g pending = Inr (g, pending)"
    by (simp add: check_game_over_def)
next
  fix g' assume "start g d = Inr g' \<or> reset_game_state g = Inr g'"
  then have "guessed g' = {}"
  proof
    assume "start g d = Inr g'"
    from start_result [OF this] show ?thesis by blast
  next
    assume "reset_game_state g = Inr g'"
    from reset_game_state_result [OF this] show ?thesis by auto
  qed
  then show "check_game_over g' pending = Inr (g', pending)"
    by (simp add: check_game_over_def)
next
  assume a: "game_state g = ''playing'' \<and>
       playing_events g (fst (event_get pending)) = Inr (g1, False) \<and> guessed g1 = {}"
  then have "check_game_over g1 (snd (event_get pending)) = Inr (g1, snd (event_get pending))"
    by (simp add: check_game_over_def)
  moreover obtain batch later where "event_get pending = (batch, later)"
    by (cases "event_get pending")
  ultimately
  show "run g pending = and_then (draw g1) (\<lambda>u. Inr (True, g1, snd (event_get pending)))"
    using a by (simp add: run_def and_then_Inr)
qed

lemma handle_button_click_scores:
  assumes "handle_button_click g m_x m_y = Inr g'"
  shows "map score (players g') = map score (players g)"
proof -
  from assms have "g' = g \<or> reset_game_state g = Inr g' \<or>
      reset_game_state (g\<lparr>current_player_index := (current_player_index g + 1) mod total_players g,
                          current_round := 1\<rparr>) = Inr g'"
    by (auto simp: handle_button_click_def split: if_splits)
  then show ?thesis
  proof (elim disjE)
    assume "g' = g" then show ?thesis by simp
  next
    assume "reset_game_state g = Inr g'"
    from reset_game_state_result [OF this] show ?thesis by (auto simp: map_update_same)
  next
    assume "reset_game_state (g\<lparr>current_player_index := (current_player_index g + 1) mod total_players g,
                          current_round := 1\<rparr>) = Inr g'"
    from reset_game_state_result [OF this] show ?thesis by (auto simp: map_update_same)
  qed
qed

lemma wait_events_scores:
  "wait_events g es clicked = Inr (g', c) \<Longrightarrow> map score (players g') = map score (players g)"
proof (induction g es clicked arbitrary: g' c rule: wait_events.induct)
  case (3 g m_x m_y es clicked)
  from "3.prems" obtain g1 where h: "handle_button_click g m_x m_y = Inr g1"
      and rest: "wait_events g1 es True = Inr (g', c)"
    by (auto simp: and_then_eq_Inr)
  from "3.IH" [OF rest] handle_button_click_scores [OF h] show ?case by simp
qed simp_all

lemma wait_for_user_input_scores:
  "wait_for_user_input g pending = Inr (g', later) \<Longrightarrow>
   map score (players g') = map score (players g)"
proof (induction g pending arbitrary: g' later rule: wait_for_user_input.induct)
  case (1 g)
  then show ?case by simp
next
  case (2 g batch rest)
  from "2.prems" obtain g1 clicked where w: "wait_events g batch False = Inr (g1, clicked)"
      and r: "(if clicked then Inr (g1, rest) else wait_for_user_input g1 rest) = Inr (g', later)"
    by (auto simp: and_then_eq_Inr)
  show ?case
  proof (cases clicked)
    case True
    with r wait_events_scores [OF w] show ?thesis by simp
  next
    case False
    with r have "wait_for_user_input g1 rest = Inr (g', later)" by simp
    from "2.IH" [OF False this] wait_events_scores [OF w]
    show ?thesis by simp
  qed
qed

lemma handle_end_of_round_scores:
  assumes "handle_end_of_round g pending = Inr (g', later)"
  shows "map score (players g') = map score (players g)"
proof -
  from assms consider
      (nxt) "next_round g pending = Inr (g', later)"
    | (wait) s where "wait_for_user_input (play (g\<lparr>game_state := s\<rparr>) end_game_sound) pending
                        = Inr (g', later)"
    by (auto simp: handle_end_of_round_def display_game_over_single_player_def
          display_game_over_two_players_def display_first_player_end_def and_then_eq_Inr
          split: if_splits)
  then show ?thesis
  proof cases
    case nxt
    then have "reset_game_state (g\<lparr>current_round := current_round g + 1\<rparr>) = Inr g'"
      by (auto simp: next_round_def and_then_eq_Inr)
    from reset_game_state_result [OF this] show ?thesis by (auto simp: map_update_same)
  next
    case wait
    from wait_for_user_input_scores [OF this] show ?thesis by (simp add: play_def)
  qed
qed

lemma update_scores_win:
  assumes "current_player_index g < length (players g)" "is_word_guessed g" "hangman_status g < 7"
  shows "\<exists>g1. update_scores g = Inr g1 \<and>
           map score (players g1) = (map score (players g))[current_player_index g :=
              score (players g ! current_player_index g) + (7 - hangman_status g) +
              (if hints_used (players g ! current_player_index g) then 0 else 10)]"
  using assms
  by (simp add: update_scores_def getitem_def and_then_Inr last_image Let_def update_score_def
        map_update)

lemma update_scores_other:
  assumes "update_scores g = Inr g1" "\<not> (is_word_guessed g \<and> hangman_status g < 7)"
  shows "g1 = g"
  using assms
  by (auto simp: update_scores_def and_then_eq_Inr last_image split: if_splits)

lemma is_word_guessed_cong:
  "current_word g' = current_word g \<Longrightarrow> guessed g' = guessed g \<Longrightarrow>
   is_word_guessed g' = is_word_guessed g"
  by (simp add: is_word_guessed_def)

lemma update_scores_index:
  "update_scores g = Inr g1 \<Longrightarrow> current_player_index g < length (players g)"
  by (auto simp: update_scores_def and_then_eq_Inr getitem_def split: if_splits)

lemma check_game_over_win:
  assumes ne: "guessed g \<noteq> {}" and st: "hangman_status g < 7" and won: "is_word_guessed g"
      and res: "check_game_over g pending = Inr (g', later)"
  shows "map score (players g') = (map score (players g))[current_player_index g :=
           score (players g ! current_player_index g) + (7 - hangman_status g) +
           (if hints_used (players g ! current_player_index g) then 0 else 10)]"
proof -
  let ?g2 = "display_end_round_message (g\<lparr>guessed_word := current_word g\<rparr>)
               ''Congratulations, you won!'' True (Some True)"
  have g2': "players ?g2 = players g" "current_player_index ?g2 = current_player_index g"
      "hangman_status ?g2 = hangman_status g"
    by (simp_all add: display_end_round_message_def play_def)
  have "is_word_guessed ?g2 = is_word_guessed g"
    by (rule is_word_guessed_cong) (simp_all add: display_end_round_message_def play_def)
  with won g2' have g2: "players ?g2 = players g"
      "current_player_index ?g2 = current_player_index g"
      "hangman_status ?g2 = hangman_status g" "is_word_guessed ?g2"
    by simp_all
  from res ne st won obtain g3 where up: "update_scores ?g2 = Inr g3"
      and her: "handle_end_of_round g3 pending = Inr (g', later)"
    by (auto simp: check_game_over_def last_image Let_def and_then_eq_Inr)
  from update_scores_index [OF up] g2 have idx: "current_player_index ?g2 < length (players ?g2)"
    by simp
  from update_scores_win [OF idx g2(4)] st g2(3) up g2(1,2)
  have "map score (players g3) = (map score (players g))[current_player_index g :=
           score (players g ! current_player_index g) + (7 - hangman_status g) +
           (if hints_used (players g ! current_player_index g) then 0 else 10)]"
    by simp
  with handle_end_of_round_scores [OF her] show ?thesis by simp
qed

lemma check_game_over_loss:
  assumes ne: "guessed g \<noteq> {}" and st: "7 \<le> hangman_status g"
      and res: "check_game_over g pending = Inr (g', later)"
  shows "map score (players g') = map score (players g)"
proof -
  let ?g2 = "display_end_round_message (g\<lparr>guessed_word := current_word g\<rparr>)
               ''You were hanged!'' True (Some False)"
  have g2: "players ?g2 = players g" "hangman_status ?g2 = hangman_status g"
    by (simp_all add: display_end_round_message_def play_def)
  from res ne st obtain g3 where up: "update_scores ?g2 = Inr g3"
      and her: "handle_end_of_round g3 pending = Inr (g', later)"
    by (auto simp: check_game_over_def last_image Let_def and_then_eq_Inr)
  from st g2(2) have "\<not> (is_word_guessed ?g2 \<and> hangman_status ?g2 < 7)" by simp
  from update_scores_other [OF up this] have "g3 = ?g2" .
  with handle_end_of_round_scores [OF her] g2(1) show ?thesis by simp
qed

text \<open>
  Claim C1. When the word is guessed with \<open>hangman_status = w < 7\<close>, \<open>update_scores\<close>
  adds \<open>7 - w\<close> to the score of the current player, and 10 more exactly when that
  player's \<open>hints_used\<close> is false; no other score changes. A round that \<open>run\<close> ends as
  won leaves the scores so changed whatever the end of the round does next, and a
  round that it ends as lost (\<open>hangman_status\<close> of 7 or more) leaves every score
  as it was.
\<close>

theorem round_end_scoring:
  "(current_player_index g < length (players g) \<and> is_word_guessed g \<and> hangman_status g < 7 \<longrightarrow>
      (\<exists>g1. update_scores g = Inr g1 \<and>
         map score (players g1) = (map score (players g))[current_player_index g :=
           score (players g ! current_player_index g) + (7 - hangman_status g) +
           (if hints_used (players g ! current_player_index g) then 0 else 10)]))
   \<and> (guessed g \<noteq> {} \<and> hangman_status g < 7 \<and> is_word_guessed g \<and>
       check_game_over g pending = Inr (g', later) \<longrightarrow>
         map score (players g') = (map score (players g))[current_player_index g :=
           score (players g ! current_player_index g) + (7 - hangman_status g) +
           (if hints_used (players g ! current_player_index g) then 0 else 10)])
   \<and> (guessed g \<noteq> {} \<and> 7 \<le> hangman_status g \<and>
       check_game_over g pending = Inr (g', later) \<longrightarrow>
         map score (players g') = map score (players g))"
  using update_scores_win [of g] check_game_over_win [of g pending g' later]
    check_game_over_loss [of g pending g' later]
  by blast

text \<open>
  Claim C7. Two players, three rounds, the first player at the end of round 3:
  \<open>handle_end_of_round\<close> sets the state \<open>end_of_game_two_players_first\<close> and shows the
  first player's end screen, which waits for a click. On a click on the continue
  button the current player becomes player 2, the round is 1 again, a new word of
  the difficulty is chosen, the guessed letters, the wrong-guess count, the hint
  display and the letter buttons are reset, player 2's \<open>hints_used\<close> is false, the
  state is \<open>playing\<close>, and player 2's \<open>hints_left\<close> and score and all of player 1
  are untouched.
\<close>

theorem first_player_done_handoff:
  assumes two: "total_players g = 2" and first: "current_player_index g = 0"
      and len: "length (players g) = 2"
      and rounds: "total_rounds g = 3" "current_round g = 3"
      and words: "clues_getitem (words_clues g) (difficulty g) = Inr ws" "ws \<noteq> []"
      and click: "is_over (continue_button g) (m_x, m_y)"
  shows "handle_end_of_round g pending =
           display_first_player_end (g\<lparr>game_state := ''end_of_game_two_players_first''\<rparr>) pending
       \<and> (\<exists>g'. handle_end_of_round g ([MOUSEBUTTONDOWN m_x m_y] # later) = Inr (g', later) \<and>
            current_player_index g' = 1 \<and> current_round g' = 1 \<and> game_state g' = ''playing'' \<and>
            guessed g' = {} \<and> hangman_status g' = 0 \<and> \<not> hint_active g' \<and>
            hint_message g' = [] \<and> letters g' = init_letters \<and>
            current_word g' \<in> set (dict_keys ws) \<and>
            \<not> hints_used (players g' ! 1) \<and>
            hints_left (players g' ! 1) = hints_left (players g ! 1) \<and>
            score (players g' ! 1) = score (players g ! 1) \<and>
            players g' ! 0 = players g ! 0)"
proof
  show shown: "handle_end_of_round g pending =
           display_first_player_end (g\<lparr>game_state := ''end_of_game_two_players_first''\<rparr>) pending"
    for pending
    using two first rounds by (simp add: handle_end_of_round_def)
  let ?s = "play (g\<lparr>game_state := ''end_of_game_two_players_first''\<rparr>) end_game_sound"
  let ?t = "?s\<lparr>current_player_index := (current_player_index ?s + 1) mod total_players ?s,
                current_round := 1\<rparr>"
  have t: "current_player_index ?t = 1" "players ?t = players g"
      "words_clues ?t = words_clues g" "difficulty ?t = difficulty g" "current_round ?t = 1"
    using two first by (simp_all add: play_def)
  from reset_game_state_returns [of ?t ws] words len t
  obtain g' where r: "reset_game_state ?t = Inr g'" by auto
  from reset_game_state_result [OF r] t obtain w rs where w: "w \<in> set (dict_keys ws)"
    and g': "g' = ?t\<lparr>guessed := {}, hangman_status := 0, hint_active := False,
                     hint_message := [], rng := rs, current_word := w,
                     letters := init_letters, game_state := ''playing'',
                     players := (players g)[1 := (players g ! 1)\<lparr>hints_used := False\<rparr>]\<rparr>"
    using words(1) by auto
  have "handle_button_click ?s m_x m_y = Inr g'"
    using click two r by (simp add: handle_button_click_def play_def)
  then have "wait_for_user_input ?s ([MOUSEBUTTONDOWN m_x m_y] # later) = Inr (g', later)"
    by (simp add: and_then_Inr)
  then have "handle_end_of_round g ([MOUSEBUTTONDOWN m_x m_y] # later) = Inr (g', later)"
    using len by (simp add: shown display_first_player_end_def getitem_def and_then_Inr)
  moreover have "current_player_index g' = 1 \<and> current_round g' = 1 \<and> game_state g' = ''playing'' \<and>
            guessed g' = {} \<and> hangman_status g' = 0 \<and> \<not> hint_active g' \<and>
            hint_message g' = [] \<and> letters g' = init_letters \<and>
            current_word g' \<in> set (dict_keys ws) \<and>
            \<not> hints_used (players g' ! 1) \<and>
            hints_left (players g' ! 1) = hints_left (players g ! 1) \<and>
            score (players g' ! 1) = score (players g ! 1) \<and>
            players g' ! 0 = players g ! 0"
    using w len t(1,5) by (simp add: g')
  ultimately show "\<exists>g'. handle_end_of_round g ([MOUSEBUTTONDOWN m_x m_y] # later) = Inr (g', later) \<and>
            current_player_index g' = 1 \<and> current_round g' = 1 \<and> game_state g' = ''playing'' \<and>
            guessed g' = {} \<and> hangman_status g' = 0 \<and> \<not> hint_active g' \<and>
            hint_message g' = [] \<and> letters g' = init_letters \<and>
            current_word g' \<in> set (dict_keys ws) \<and>
            \<not> hints_used (players g' ! 1) \<and>
            hints_left (players g' ! 1) = hints_left (players g ! 1) \<and>
            score (players g' ! 1) = score (players g ! 1) \<and>
            players g' ! 0 = players g ! 0"
    by blast
qed

section \<open>The sample session\<close>

text \<open>
  The 26 buttons in two rows of 13, and the sample game as \<open>__init__\<close> and \<open>start\<close>
  leave it.
\<close>

lemma init_letters_eval:
  "init_letters =
     [(172, 520, CHR ''a'', True), (227, 520, CHR ''b'', True), (282, 520, CHR ''c'', True),
      (337, 520, CHR ''d'', True), (392, 520, CHR ''e'', True), (447, 520, CHR ''f'', True),
      (502, 520, CHR ''g'', True), (557, 520, CHR ''h'', True), (612, 520, CHR ''i'', True),
      (667, 520, CHR ''j'', True), (722, 520, CHR ''k'', True), (777, 520, CHR ''l'', True),
      (832, 520, CHR ''m'', True), (172, 575, CHR ''n'', True), (227, 575, CHR ''o'', True),
      (282, 575, CHR ''p'', True), (337, 575, CHR ''q'', True), (392, 575, CHR ''r'', True),
      (447, 575, CHR ''s'', True), (502, 575, CHR ''t'', True), (557, 575, CHR ''u'', True),
      (612, 575, CHR ''v'', True), (667, 575, CHR ''w'', True), (722, 575, CHR ''x'', True),
      (777, 575, CHR ''y'', True), (832, 575, CHR ''z'', True)]"
  by code_simp

lemma sample_game_eval:
  "sample_game =
     \<lparr>hangman_status = 0, current_word = [], guessed_word = [], guessed = {},
      letters = init_letters, current_player_index = 0,
      players = [Player ''Player 1'', Player ''Player 2''],
      total_players = 2, current_round = 1, total_rounds = 3,
      words_clues = sample_clues, hint_active = False, hint_message = [], difficulty = None,
      game_state = ''playing'',
      exit_button = Button 100 550 250 50, continue_button = Button 550 550 400 50,
      clues_file = Loaded sample_clues, rng = [], mixer = [], hint_text_size = (44, 28)\<rparr>"
  by (simp add: sample_game_def HangmanGame_def load_clues_def)

lemma start_easy: "start sample_game ''easy'' = Inr cat_round"
  by (simp add: start_def sample_game_eval cat_round_def load_clues_def dict_getitem_def
        sample_clues_def random_choice_def dict_keys_def and_then_Inr)

lemma start_medium: "start sample_game ''medium'' = Inr film_round"
  by (simp add: start_def sample_game_eval film_round_def load_clues_def dict_getitem_def
        sample_clues_def random_choice_def dict_keys_def and_then_Inr)

lemma cat_round_eval:
  "cat_round =
     \<lparr>hangman_status = 0, current_word = ''cat'', guessed_word = [], guessed = {},
      letters = init_letters, current_player_index = 0,
      players = [Player ''Player 1'', Player ''Player 2''],
      total_players = 2, current_round = 1, total_rounds = 3,
      words_clues = sample_clues, hint_active = False, hint_message = [],
      difficulty = Some ''easy'', game_state = ''playing'',
      exit_button = Button 100 550 250 50, continue_button = Button 550 550 400 50,
      clues_file = Loaded sample_clues, rng = [], mixer = [], hint_text_size = (44, 28)\<rparr>"
  by (simp add: cat_round_def sample_game_eval)

text \<open>
  The sample states are reached by play: a click on the letter c, a click on the hint
  button, and the clicks that win and lose the round.
\<close>

lemma click_c: "handle_events cat_round 282 520 = Inr cat_round_c"
  by (simp add: handle_events_def cat_round_eval cat_round_c_def init_letters_eval
        within_radius_def RADIUS_def guess_letter_def lower_def play_def Let_def)

lemma hint_click_eval: "handle_events cat_round 20 20 = Inr cat_round_hint"
  by (simp add: handle_events_def cat_round_eval cat_round_hint_def init_letters_eval
        within_radius_def RADIUS_def draw_hint_button_def collidepoint_def provide_hint_def
        player_provide_hint_def getitem_def Player_def clues_get_def dict_get_def sample_clues_def
        draw_def display_status_def images_getitem_def IMAGES_def and_then_Inr Let_def)

lemma clicks_won:
  "playing_events cat_round
     [MOUSEBUTTONDOWN 227 520, MOUSEBUTTONDOWN 337 520, MOUSEBUTTONDOWN 282 520,
      MOUSEBUTTONDOWN 172 520, MOUSEBUTTONDOWN 502 575] = Inr (cat_won, False)"
  by (simp add: handle_events_def cat_round_eval cat_won_def init_letters_eval
        within_radius_def RADIUS_def guess_letter_def lower_def play_def last_image and_then_Inr
        Let_def insert_commute)

lemma clicks_lost:
  "playing_events cat_round
     [MOUSEBUTTONDOWN 227 520, MOUSEBUTTONDOWN 337 520, MOUSEBUTTONDOWN 392 520,
      MOUSEBUTTONDOWN 447 520, MOUSEBUTTONDOWN 502 520, MOUSEBUTTONDOWN 557 520,
      MOUSEBUTTONDOWN 612 520] = Inr (cat_lost, False)"
  by (simp add: handle_events_def cat_round_eval cat_lost_def init_letters_eval
        within_radius_def RADIUS_def guess_letter_def lower_def play_def last_image and_then_Inr
        Let_def insert_commute)

lemma cat_round_hint_eval:
  "cat_round_hint =
     \<lparr>hangman_status = 0, current_word = ''cat'', guessed_word = [], guessed = {},
      letters = init_letters, current_player_index = 0,
      players = [(Player ''Player 1'')\<lparr>hints_used := True, hints_left := 2\<rparr>, Player ''Player 2''],
      total_players = 2, current_round = 1, total_rounds = 3,
      words_clues = sample_clues, hint_active = True, hint_message = ''It purrs'',
      difficulty = Some ''easy'', game_state = ''playing'',
      exit_button = Button 100 550 250 50, continue_button = Button 550 550 400 50,
      clues_file = Loaded sample_clues, rng = [], mixer = [], hint_text_size = (44, 28)\<rparr>"
  by (simp add: cat_round_hint_def cat_round_eval)

lemma easy_words:
  "clues_getitem sample_clues (Some ''easy'') = Inr [(''cat'', ''It purrs'')]"
  by (simp add: clues_getitem_def dict_getitem_def sample_clues_def)

text \<open>
  A new player asks for the clue of the word cat; a player without hints asks too.
\<close>

theorem provide_hint_budget_witness:
  "snd (player_provide_hint (Player ''Player 1'') sample_clues (Some ''easy'') ''cat'') =
     (Player ''Player 1'')\<lparr>hints_left := 2, hints_used := True\<rparr> \<and>
   fst (player_provide_hint (Player ''Player 1'') sample_clues (Some ''easy'') ''cat'') =
     ''It purrs'' \<and>
   player_provide_hint ((Player ''Player 2'')\<lparr>hints_left := 0\<rparr>) sample_clues (Some ''easy'') ''cat''
     = (''No hints left.'', (Player ''Player 2'')\<lparr>hints_left := 0\<rparr>)"
  using provide_hint_budget [of "Player ''Player 1''" sample_clues "Some ''easy''" "''cat''"]
    provide_hint_budget [of "(Player ''Player 2'')\<lparr>hints_left := 0\<rparr>" sample_clues
      "Some ''easy''" "''cat''"]
  by (simp add: Player_def sample_clues_def)

text \<open>
  The word cat is guessed after b, d, c, a, t, not after c alone; a blank word is not
  guessed with the same letters.
\<close>

theorem is_word_guessed_iff_witness:
  "is_word_guessed cat_won \<and> \<not> is_word_guessed cat_round_c \<and>
   \<not> is_word_guessed (cat_won\<lparr>current_word := ''  ''\<rparr>)"
  using is_word_guessed_iff [of cat_won] is_word_guessed_iff [of cat_round_c]
    is_word_guessed_iff [of "cat_won\<lparr>current_word := ''  ''\<rparr>"]
  by (simp add: cat_won_def cat_round_c_def cat_round_eval isspace_def isalpha_def)

text \<open>
  The film title 1917 has no letter: the round opened on it counts as guessed before
  any guess is made.
\<close>

theorem digits_word_is_guessed:
  "is_word_guessed film_round \<and> filter isalpha (current_word film_round) = [] \<and>
   guessed film_round = {}"
  by (simp add: is_word_guessed_def film_round_def sample_game_eval strip_def isspace_def
        isalpha_def)

text \<open>
  A reset after player 1 has used one hint: the budgets stay 2 and 3.
\<close>

theorem round_reset_keeps_hint_budget_witness:
  "(\<exists>g'. reset_game_state cat_round_hint = Inr g' \<and>
      map hints_left (players g') = [2, 3] \<and> \<not> hints_used (players g' ! 0) \<and>
      current_player_index g' = 0)
   \<and> hints_left (Player ''Player 1'') = 3"
proof -
  note t = round_reset_keeps_hint_budget [of cat_round_hint "[(''cat'', ''It purrs'')]" "''Player 1''"]
  have "clues_getitem (words_clues cat_round_hint) (difficulty cat_round_hint)
          = Inr [(''cat'', ''It purrs'')]"
    by (simp add: cat_round_hint_eval easy_words)
  moreover have "current_player_index cat_round_hint < length (players cat_round_hint)"
    by (simp add: cat_round_hint_eval)
  ultimately obtain g' where r: "reset_game_state cat_round_hint = Inr g'"
    using t by blast
  with t have "map hints_left (players g') = map hints_left (players cat_round_hint)"
      "\<not> hints_used (players g' ! current_player_index cat_round_hint)"
      "current_player_index g' = current_player_index cat_round_hint"
    by blast+
  then have "map hints_left (players g') = [2, 3] \<and> \<not> hints_used (players g' ! 0) \<and>
      current_player_index g' = 0"
    by (simp add: cat_round_hint_eval Player_def)
  with r have "\<exists>g'. reset_game_state cat_round_hint = Inr g' \<and>
      map hints_left (players g') = [2, 3] \<and> \<not> hints_used (players g' ! 0) \<and>
      current_player_index g' = 0"
    by auto
  moreover from t have "hints_left (Player ''Player 1'') = 3" by blast
  ultimately show ?thesis by blast
qed

text \<open>
  \<open>start\<close> with the clue file missing, at a level the file does not have, at the level
  without words and at the easy level.
\<close>

theorem start_needs_words_witness:
  "start no_clues_game ''easy'' = Inl (Raised KeyError) \<and>
   start sample_game ''extreme'' = Inl (Raised KeyError) \<and>
   start sample_game ''hard'' = Inl (Raised IndexError) \<and>
   (\<exists>g'. start sample_game ''easy'' = Inr g' \<and> current_word g' = ''cat'')"
  using start_needs_words [of no_clues_game "''easy''" sample_clues "[]"]
    start_needs_words [of sample_game "''extreme''" sample_clues "[]"]
    start_needs_words [of sample_game "''hard''" sample_clues "[]"]
    start_needs_words [of sample_game "''easy''" sample_clues "[(''cat'', ''It purrs'')]"]
  by (simp add: no_clues_game_def HangmanGame_def load_clues_def sample_game_eval
        sample_clues_def dict_keys_def)

text \<open>
  The easy round right after \<open>start\<close>, with one event that is not a click.
\<close>

theorem fresh_round_not_terminal_witness:
  "check_game_over cat_round [] = Inr (cat_round, []) \<and>
   check_game_over cat_round [[OTHER]] = Inr (cat_round, [[OTHER]]) \<and>
   run cat_round [[OTHER]] = Inr (True, cat_round, [])"
proof -
  have d: "draw cat_round = Inr ()"
    by (rule draw_ok) (simp_all add: cat_round_eval)
  have p: "playing_events cat_round (fst (event_get [[OTHER]])) = Inr (cat_round, False)"
    by (simp add: event_get_def)
  have e: "guessed cat_round = {}" "game_state cat_round = ''playing''"
    by (simp_all add: cat_round_eval)
  from fresh_round_not_terminal [of cat_round "[]" "''easy''" cat_round] e
  have "check_game_over cat_round [] = Inr (cat_round, [])" by blast
  moreover from fresh_round_not_terminal [of sample_game "[[OTHER]]" "''easy''" cat_round]
    start_easy
  have "check_game_over cat_round [[OTHER]] = Inr (cat_round, [[OTHER]])" by blast
  moreover from fresh_round_not_terminal [of cat_round "[[OTHER]]" "''easy''" cat_round] e p
  have "run cat_round [[OTHER]] =
          and_then (draw cat_round) (\<lambda>u. Inr (True, cat_round, snd (event_get [[OTHER]])))"
    by blast
  ultimately show ?thesis by (simp add: d and_then_Inr event_get_def)
qed

text \<open>
  Three clicks on the hint button in the first round.
\<close>

theorem hints_not_gated_per_round_witness:
  "\<exists>g'. playing_events cat_round (replicate 3 (MOUSEBUTTONDOWN 20 20)) = Inr (g', False) \<and>
      hints_left (players g' ! 0) = 0 \<and> hint_message g' = ''It purrs'' \<and>
      current_word g' = ''cat'' \<and> hints_used (players g' ! 0)"
proof -
  have "click_letter (letters cat_round) 20 20 = None"
    by (simp add: cat_round_eval init_letters_eval within_radius_def RADIUS_def)
  moreover have "collidepoint (draw_hint_button cat_round) (20, 20)"
    by (simp add: cat_round_eval draw_hint_button_def collidepoint_def)
  moreover have "current_player_index cat_round < length (players cat_round)"
      "- 8 \<le> hangman_status cat_round" "hangman_status cat_round < 8"
      "int 3 \<le> hints_left (players cat_round ! current_player_index cat_round)"
    by (simp_all add: cat_round_eval Player_def)
  ultimately have "\<exists>g'. playing_events cat_round (replicate 3 (MOUSEBUTTONDOWN 20 20)) = Inr (g', False) \<and>
           current_word g' = current_word cat_round \<and> guessed g' = guessed cat_round \<and>
           hangman_status g' = hangman_status cat_round \<and>
           current_player_index g' = current_player_index cat_round \<and>
           hints_left (players g' ! current_player_index cat_round) =
             hints_left (players cat_round ! current_player_index cat_round) - int 3 \<and>
           (0 < (3::nat) \<longrightarrow> hint_message g' = hint_for cat_round \<and> hint_active g' \<and>
                        hints_used (players g' ! current_player_index cat_round))"
    by (rule hints_not_gated_per_round)
  moreover have "hint_for cat_round = ''It purrs''"
    by (simp add: hint_for_def cat_round_eval clues_get_def dict_get_def sample_clues_def)
  ultimately show ?thesis
    by (auto simp: cat_round_eval Player_def)
qed

lemma cat_won_eval:
  "hangman_status cat_won = 2" "current_word cat_won = ''cat''"
  "guessed cat_won = set ''bdcat''" "current_player_index cat_won = 0"
  "players cat_won = [Player ''Player 1'', Player ''Player 2'']"
  "total_players cat_won = 2" "current_round cat_won = 1" "total_rounds cat_won = 3"
  "words_clues cat_won = sample_clues" "difficulty cat_won = Some ''easy''"
  "game_state cat_won = ''playing''" "continue_button cat_won = Button 550 550 400 50"
  "rng cat_won = []"
  by (simp_all add: cat_won_def cat_round_eval)

lemma cat_lost_eval:
  "hangman_status cat_lost = 7" "current_word cat_lost = ''cat''"
  "guessed cat_lost = set ''bdefghi''" "current_player_index cat_lost = 0"
  "players cat_lost = [Player ''Player 1'', Player ''Player 2'']"
  "total_players cat_lost = 2" "current_round cat_lost = 1" "total_rounds cat_lost = 3"
  "words_clues cat_lost = sample_clues" "difficulty cat_lost = Some ''easy''"
  "game_state cat_lost = ''playing''" "rng cat_lost = []"
  by (simp_all add: cat_lost_def cat_round_eval)

lemma cat_won_guessed: "is_word_guessed cat_won"
  by (simp add: is_word_guessed_def cat_won_eval strip_def isspace_def isalpha_def)

lemma next_round_returns:
  assumes "clues_getitem (words_clues g) (difficulty g) = Inr ws" "ws \<noteq> []"
      "current_player_index g < length (players g)"
  shows "\<exists>g'. next_round g pending = Inr (g', pending)"
proof -
  from reset_game_state_returns [of "g\<lparr>current_round := current_round g + 1\<rparr>" ws] assms
  obtain g' where "reset_game_state (g\<lparr>current_round := current_round g + 1\<rparr>) = Inr g'"
    by auto
  then show ?thesis by (simp add: next_round_def and_then_Inr)
qed

lemma cat_won_round_ends: "\<exists>g'. check_game_over cat_won [] = Inr (g', [])"
proof -
  let ?g1 = "cat_won\<lparr>guessed_word := current_word cat_won\<rparr>"
  let ?g2 = "display_end_round_message ?g1 ''Congratulations, you won!'' True (Some True)"
  have d: "draw ?g1 = Inr ()"
    by (rule draw_ok) (simp_all add: cat_won_eval)
  have "is_word_guessed ?g2 = is_word_guessed cat_won"
    by (rule is_word_guessed_cong) (simp_all add: display_end_round_message_def play_def)
  with cat_won_guessed have w: "is_word_guessed ?g2" by simp
  have i: "current_player_index ?g2 < length (players ?g2)" "hangman_status ?g2 < 7"
    by (simp_all add: display_end_round_message_def play_def cat_won_eval)
  from update_scores_win [OF i(1) w i(2)] obtain g3 where u: "update_scores ?g2 = Inr g3"
    by blast
  then have g3: "g3 = ?g2\<lparr>players := players g3\<rparr>" "length (players g3) = 2"
    using w i by (auto simp: update_scores_def and_then_eq_Inr Let_def last_image
        display_end_round_message_def play_def cat_won_eval)
  have f: "total_players g3 = 2" "current_player_index g3 = 0" "current_round g3 = 1"
      "total_rounds g3 = 3" "words_clues g3 = sample_clues" "difficulty g3 = Some ''easy''"
    by (subst g3(1), simp add: display_end_round_message_def play_def cat_won_eval)+
  from next_round_returns [of g3 "[(''cat'', ''It purrs'')]" "[]"] f g3(2)
  obtain g' where "next_round g3 [] = Inr (g', [])"
    by (auto simp: easy_words)
  then have "handle_end_of_round g3 [] = Inr (g', [])"
    using f by (simp add: handle_end_of_round_def)
  with u d cat_won_guessed show ?thesis
    by (simp add: check_game_over_def last_image cat_won_eval Let_def and_then_Inr)
qed

lemma cat_lost_round_ends: "\<exists>g'. check_game_over cat_lost [] = Inr (g', [])"
proof -
  let ?g1 = "cat_lost\<lparr>guessed_word := current_word cat_lost\<rparr>"
  let ?g2 = "display_end_round_message ?g1 ''You were hanged!'' True (Some False)"
  have u: "update_scores ?g2 = Inr ?g2"
    by (simp add: update_scores_def getitem_def and_then_Inr last_image
        display_end_round_message_def play_def cat_lost_eval)
  have f: "total_players ?g2 = 2" "current_player_index ?g2 = 0" "current_round ?g2 = 1"
      "total_rounds ?g2 = 3" "words_clues ?g2 = sample_clues" "difficulty ?g2 = Some ''easy''"
      "length (players ?g2) = 2"
    by (simp_all add: display_end_round_message_def play_def cat_lost_eval)
  from next_round_returns [of ?g2 "[(''cat'', ''It purrs'')]" "[]"] f
  obtain g' where "next_round ?g2 [] = Inr (g', [])"
    by (auto simp: easy_words)
  then have "handle_end_of_round ?g2 [] = Inr (g', [])"
    using f by (simp add: handle_end_of_round_def)
  with u show ?thesis
    by (simp add: check_game_over_def last_image cat_lost_eval Let_def and_then_Inr)
qed

text \<open>
  The word cat won after two wrong guesses: 15 points without a hint, 5 with one; the
  first round ending won and ending lost.
\<close>

theorem round_end_scoring_witness:
  "(\<exists>g1. update_scores cat_won = Inr g1 \<and> map score (players g1) = [15, 0])
   \<and> (\<exists>g1. update_scores (cat_won\<lparr>players := players cat_round_hint\<rparr>) = Inr g1 \<and>
          map score (players g1) = [5, 0])
   \<and> (\<exists>g'. check_game_over cat_won [] = Inr (g', []) \<and> map score (players g') = [15, 0])
   \<and> (\<exists>g'. check_game_over cat_lost [] = Inr (g', []) \<and> map score (players g') = [0, 0])"
proof (intro conjI)
  from round_end_scoring [of cat_won] cat_won_guessed
  show "\<exists>g1. update_scores cat_won = Inr g1 \<and> map score (players g1) = [15, 0]"
    by (simp add: cat_won_eval Player_def)
next
  let ?h = "cat_won\<lparr>players := players cat_round_hint\<rparr>"
  have "is_word_guessed ?h = is_word_guessed cat_won"
    by (rule is_word_guessed_cong) simp_all
  with cat_won_guessed have "is_word_guessed ?h" by simp
  with round_end_scoring [of ?h]
  show "\<exists>g1. update_scores ?h = Inr g1 \<and> map score (players g1) = [5, 0]"
    by (simp add: cat_won_eval cat_round_hint_eval Player_def)
next
  from cat_won_round_ends obtain g' where r: "check_game_over cat_won [] = Inr (g', [])" ..
  with round_end_scoring [of cat_won "[]" g' "[]"] cat_won_guessed
  have "map score (players g') = [15, 0]"
    by (simp add: cat_won_eval Player_def)
  with r show "\<exists>g'. check_game_over cat_won [] = Inr (g', []) \<and> map score (players g') = [15, 0]"
    by auto
next
  from cat_lost_round_ends obtain g' where r: "check_game_over cat_lost [] = Inr (g', [])" ..
  with round_end_scoring [of cat_lost "[]" g' "[]"]
  have "map score (players g') = [0, 0]"
    by (simp add: cat_lost_eval Player_def)
  with r show "\<exists>g'. check_game_over cat_lost [] = Inr (g', []) \<and> map score (players g') = [0, 0]"
    by auto
qed

text \<open>
  Seven wrong letters bring the count to 7; a wrong letter adds one, a right one
  none, and an eighth wrong letter leaves the count at 7.
\<close>

theorem wrong_guess_count_bounded_witness:
  "hangman_status cat_round \<le> hangman_status cat_lost \<and> hangman_status cat_lost \<le> 7 \<and>
   (\<exists>g1. handle_events cat_round 227 520 = Inr g1 \<and> hangman_status g1 = 1) \<and>
   (\<exists>g1. handle_events cat_round 282 520 = Inr g1 \<and> hangman_status g1 = 0) \<and>
   (\<exists>g1 q. playing_events cat_lost [MOUSEBUTTONDOWN 667 520] = Inr (g1, q) \<and>
       hangman_status g1 = 7)"
proof -
  have s0: "hangman_status cat_round = 0" "guessed cat_round = {}"
      "current_word cat_round = ''cat''"
    by (simp_all add: cat_round_eval)
  obtain lb where b: "click_letter (letters cat_round) 227 520 = Some (CHR ''b'', lb)"
    by (simp add: cat_round_eval init_letters_eval within_radius_def RADIUS_def)
  obtain lc where c: "click_letter (letters cat_round) 282 520 = Some (CHR ''c'', lc)"
    by (simp add: cat_round_eval init_letters_eval within_radius_def RADIUS_def)
  from wrong_guess_count_bounded
    [of cat_round "[MOUSEBUTTONDOWN 227 520, MOUSEBUTTONDOWN 337 520, MOUSEBUTTONDOWN 392 520,
      MOUSEBUTTONDOWN 447 520, MOUSEBUTTONDOWN 502 520, MOUSEBUTTONDOWN 557 520,
      MOUSEBUTTONDOWN 612 520]" cat_lost False 227 520 "CHR ''b''" lb] clicks_lost b s0
  have one: "hangman_status cat_round \<le> hangman_status cat_lost \<and> hangman_status cat_lost \<le> 7"
    and two: "\<exists>g1. handle_events cat_round 227 520 = Inr g1 \<and> hangman_status g1 = 1"
    by (simp_all add: lower_def)
  from wrong_guess_count_bounded [of cat_round "[]" cat_round False 282 520 "CHR ''c''" lc] c s0
  have three: "\<exists>g1. handle_events cat_round 282 520 = Inr g1 \<and> hangman_status g1 = 0"
    by (simp add: lower_def)
  have ok: "current_player_index cat_lost < length (players cat_lost)"
      "0 \<le> hangman_status cat_lost" "hangman_status cat_lost \<le> 7"
    by (simp_all add: cat_lost_eval)
  obtain lj where "click_letter (letters cat_lost) 667 520 = Some (CHR ''j'', lj)"
    by (simp add: cat_lost_def cat_round_eval init_letters_eval within_radius_def RADIUS_def)
  from wrong_guess_count_bounded
    [of cat_lost "[MOUSEBUTTONDOWN 667 520]" _ _ 667 520 "CHR ''j''" lj] ok
  obtain g1 q where r: "playing_events cat_lost [MOUSEBUTTONDOWN 667 520] = Inr (g1, q)"
    by blast
  from wrong_guess_count_bounded
    [of cat_lost "[MOUSEBUTTONDOWN 667 520]" g1 q 667 520 "CHR ''j''" lj] ok r
  have "hangman_status cat_lost \<le> hangman_status g1 \<and> hangman_status g1 \<le> 7" by blast
  then have "hangman_status g1 = 7" by (simp add: cat_lost_eval)
  with r have four: "\<exists>g1 q. playing_events cat_lost [MOUSEBUTTONDOWN 667 520] = Inr (g1, q) \<and>
       hangman_status g1 = 7" by auto
  from one two three four show ?thesis by simp
qed


text \<open>
  Player 1 has won round 3 and the continue button is clicked.
\<close>

theorem first_player_done_handoff_witness:
  "\<exists>g'. handle_end_of_round (cat_won\<lparr>current_round := 3\<rparr>) ([MOUSEBUTTONDOWN 600 575] # [])
           = Inr (g', []) \<and>
      current_player_index g' = 1 \<and> current_round g' = 1 \<and> game_state g' = ''playing'' \<and>
      guessed g' = {} \<and> hangman_status g' = 0 \<and> current_word g' = ''cat'' \<and>
      hints_left (players g' ! 1) = 3 \<and> \<not> hints_used (players g' ! 1)"
proof -
  let ?g = "cat_won\<lparr>current_round := 3\<rparr>"
  have "total_players ?g = 2" "current_player_index ?g = 0" "length (players ?g) = 2"
      "total_rounds ?g = 3" "current_round ?g = 3"
      "clues_getitem (words_clues ?g) (difficulty ?g) = Inr [(''cat'', ''It purrs'')]"
      "[(''cat'', ''It purrs'')] \<noteq> ([] :: (string \<times> string) list)"
      "is_over (continue_button ?g) (600, 575)"
    by (simp_all add: cat_won_eval easy_words is_over_def Button_def)
  from first_player_done_handoff [OF this, of "[]" "[]"]
  show ?thesis
    by (auto simp: dict_keys_def cat_won_eval Player_def)
qed


end
